theory Spec2Isabelle
  imports Main
begin

section \<open>Python values and strings\<close>

text \<open>
  The program is \<^verbatim>\<open>songwish_processor.py\<close>. A Python string is a sequence of code
  points; the model covers the code points 0..255 (Latin-1), one \<^typ>\<open>char\<close> each.
  A spreadsheet cell read by pandas is empty (NaN), a string or a whole number.
\<close>

datatype cell = Missing | Str string | Num int

datatype py_error = ValueError | OverflowError | IndexError | AttributeError

definition code :: "char \<Rightarrow> nat" where
  "code c = of_char c"

definition digit_char :: "nat \<Rightarrow> char" where
  "digit_char d = ''0123456789'' ! d"

fun show_nat :: "nat \<Rightarrow> string" where
  "show_nat n = (if n < 10 then [digit_char n] else show_nat (n div 10) @ [digit_char (n mod 10)])"

declare show_nat.simps [simp del]

definition show_int :: "int \<Rightarrow> string" where
  "show_int i = (if i < 0 then CHR ''-'' # show_nat (nat (- i)) else show_nat (nat i))"

text \<open>\<^verbatim>\<open>pd.isna(x)\<close>, \<^verbatim>\<open>not x\<close> and \<^verbatim>\<open>str(x)\<close> on a cell.\<close>

fun isna :: "cell \<Rightarrow> bool" where
  "isna Missing = True"
| "isna _ = False"

fun falsy :: "cell \<Rightarrow> bool" where
  "falsy Missing = False"
| "falsy (Str s) = (s = [])"
| "falsy (Num n) = (n = 0)"

fun py_str :: "cell \<Rightarrow> string" where
  "py_str Missing = ''nan''"
| "py_str (Str s) = s"
| "py_str (Num n) = show_int n"

text \<open>\<^verbatim>\<open>str.lower()\<close> on the Latin-1 range: A-Z and the accented capitals
  U+00C0..U+00DE except the multiplication sign U+00D7 move up by 32.\<close>

definition lower_char :: "char \<Rightarrow> char" where
  "lower_char c =
     (let n = code c
      in if (65 \<le> n \<and> n \<le> 90) \<or> (192 \<le> n \<and> n \<le> 222 \<and> n \<noteq> 215)
         then char_of (n + 32) else c)"

definition lower :: "string \<Rightarrow> string" where
  "lower s = map lower_char s"

text \<open>
  \<^verbatim>\<open>unicodedata.normalize('NFKD', c).encode('ASCII', 'ignore').decode('ASCII')\<close>
  for one character: the ASCII characters that remain of its compatibility
  decomposition (table of the Unicode character database for U+0080..U+00FF).
\<close>

definition nfkd_ascii :: "char \<Rightarrow> string" where
  "nfkd_ascii c =
     (let n = code c
      in if n < 128 then [c]
         else if n \<in> {160, 168, 175, 180, 184} then '' ''
         else if n = 170 then ''a''
         else if n = 178 then ''2''
         else if n = 179 then ''3''
         else if n = 185 then ''1''
         else if n = 186 then ''o''
         else if n = 188 then ''14''
         else if n = 189 then ''12''
         else if n = 190 then ''34''
         else if 192 \<le> n \<and> n \<le> 197 then ''A''
         else if n = 199 then ''C''
         else if 200 \<le> n \<and> n \<le> 203 then ''E''
         else if 204 \<le> n \<and> n \<le> 207 then ''I''
         else if n = 209 then ''N''
         else if 210 \<le> n \<and> n \<le> 214 then ''O''
         else if 217 \<le> n \<and> n \<le> 220 then ''U''
         else if n = 221 then ''Y''
         else if 224 \<le> n \<and> n \<le> 229 then ''a''
         else if n = 231 then ''c''
         else if 232 \<le> n \<and> n \<le> 235 then ''e''
         else if 236 \<le> n \<and> n \<le> 239 then ''i''
         else if n = 241 then ''n''
         else if 242 \<le> n \<and> n \<le> 246 then ''o''
         else if 249 \<le> n \<and> n \<le> 252 then ''u''
         else if n = 253 \<or> n = 255 then ''y''
         else [])"

text \<open>The character class \<^verbatim>\<open>[a-z0-9]\<close> of the regular expression.\<close>

definition az09 :: "char set" where
  "az09 = set ''abcdefghijklmnopqrstuvwxyz0123456789''"

subsection \<open>String operations\<close>

text \<open>\<^verbatim>\<open>sub in s\<close> for strings, and \<^verbatim>\<open>s.startswith(p)\<close>.\<close>

fun startswith :: "string \<Rightarrow> string \<Rightarrow> bool" where
  "startswith s [] = True"
| "startswith [] (p # ps) = False"
| "startswith (c # cs) (p # ps) = (c = p \<and> startswith cs ps)"

fun py_in :: "string \<Rightarrow> string \<Rightarrow> bool" where
  "py_in sub [] = (sub = [])"
| "py_in sub (c # cs) = (startswith (c # cs) sub \<or> py_in sub cs)"

text \<open>\<^verbatim>\<open>sep.join(xs)\<close>.\<close>

fun join :: "string \<Rightarrow> string list \<Rightarrow> string" where
  "join sep [] = []"
| "join sep [x] = x"
| "join sep (x # y # ys) = x @ sep @ join sep (y # ys)"

text \<open>\<^verbatim>\<open>s.split(c)\<close> for a separator of one character: never an empty list.\<close>

fun split_on :: "char \<Rightarrow> string \<Rightarrow> string list" where
  "split_on sep [] = [[]]"
| "split_on sep (c # cs) =
     (if c = sep then [] # split_on sep cs
      else (case split_on sep cs of
              [] \<Rightarrow> [[c]]
            | p # ps \<Rightarrow> (c # p) # ps))"

text \<open>
  Whitespace: \<^verbatim>\<open>str.strip()\<close> removes the characters for which \<^verbatim>\<open>str.isspace\<close>
  holds; \<^verbatim>\<open>int()\<close> and \<^verbatim>\<open>float()\<close> skip the ASCII whitespace and the
  non-ASCII space characters, but not the separators U+001C..U+001F.
\<close>

definition ws_str :: "char \<Rightarrow> bool" where
  "ws_str c = (code c \<in> {9, 10, 11, 12, 13, 28, 29, 30, 31, 32, 133, 160})"

definition ws_num :: "char \<Rightarrow> bool" where
  "ws_num c = (code c \<in> {9, 10, 11, 12, 13, 32, 133, 160})"

definition strip_with :: "(char \<Rightarrow> bool) \<Rightarrow> string \<Rightarrow> string" where
  "strip_with ws s = rev (dropWhile ws (rev (dropWhile ws s)))"

definition strip :: "string \<Rightarrow> string" where
  "strip s = strip_with ws_str s"

subsection \<open>Reading numbers: \<^verbatim>\<open>int(s)\<close> and \<^verbatim>\<open>int(float(s))\<close>\<close>

definition is_digit :: "char \<Rightarrow> bool" where
  "is_digit c = (48 \<le> code c \<and> code c \<le> 57)"

definition digit_val :: "char \<Rightarrow> nat" where
  "digit_val c = code c - 48"

text \<open>A digit part is a non-empty run of digits, with single underscores allowed
  between two digits. The flag says that the previous character was a digit.\<close>

fun digitpart_from :: "bool \<Rightarrow> string \<Rightarrow> nat list option" where
  "digitpart_from prev [] = (if prev then Some [] else None)"
| "digitpart_from prev (c # cs) =
     (if is_digit c then map_option ((#) (digit_val c)) (digitpart_from True cs)
      else if c = CHR ''_'' \<and> prev then digitpart_from False cs
      else None)"

definition digitpart :: "string \<Rightarrow> nat list option" where
  "digitpart s = digitpart_from False s"

definition decimal :: "nat list \<Rightarrow> nat" where
  "decimal ds = foldl (\<lambda>n d. n * 10 + d) 0 ds"

fun split_sign :: "string \<Rightarrow> bool \<times> string" where
  "split_sign [] = (False, [])"
| "split_sign (c # cs) =
     (if c = CHR ''-'' then (True, cs)
      else if c = CHR ''+'' then (False, cs)
      else (False, c # cs))"

definition signed :: "bool \<Rightarrow> int \<Rightarrow> int" where
  "signed neg n = (if neg then - n else n)"

text \<open>
  \<^verbatim>\<open>int(s)\<close> in base 10; \<open>None\<close> is ValueError. CPython 3.11 also refuses more
  than 4300 digits (\<^verbatim>\<open>sys.get_int_max_str_digits()\<close>) with ValueError.
\<close>

definition py_int :: "string \<Rightarrow> int option" where
  "py_int s =
     (let (neg, body) = split_sign (strip_with ws_num s)
      in case digitpart body of
           None \<Rightarrow> None
         | Some ds \<Rightarrow> if length ds > 4300 then None else Some (signed neg (int (decimal ds))))"

text \<open>
  \<^verbatim>\<open>int(float(s))\<close>. The positive rational \<open>p / q\<close> is rounded to the nearest
  IEEE 754 double (53 significant bits, ties to even) and the double is truncated
  to an integer; \<open>None\<close> says that the rounded value is beyond the largest double, which
  \<^verbatim>\<open>float\<close> reads as infinity. A value below one half rounds to a double that is at
  most one half, so it truncates to 0 whatever its exact rounding is.
\<close>

fun bit_length :: "nat \<Rightarrow> nat" where
  "bit_length n = (if n = 0 then 0 else Suc (bit_length (n div 2)))"

declare bit_length.simps [simp del]

definition trunc_double :: "nat \<Rightarrow> nat \<Rightarrow> nat option" where
  "trunc_double p q =
     (if p = 0 \<or> 2 * p < q then Some 0
      else
        let e0 = int (bit_length p) - int (bit_length q);
            ge = (if 0 \<le> e0 then q * 2 ^ nat e0 \<le> p else q \<le> p * 2 ^ nat (- e0));
            e = (if ge then e0 else e0 - 1);
            num = (if e \<le> 52 then p * 2 ^ nat (52 - e) else p);
            den = (if e \<le> 52 then q else q * 2 ^ nat (e - 52));
            n0 = num div den;
            r = num mod den;
            n = (if den < 2 * r \<or> (2 * r = den \<and> odd n0) then n0 + 1 else n0)
        in if 52 \<le> e
           then (if 2 ^ 1024 \<le> n * 2 ^ nat (e - 52) then None else Some (n * 2 ^ nat (e - 52)))
           else Some (n div 2 ^ nat (52 - e)))"

text \<open>The mantissa of a float literal: \<^verbatim>\<open>digits\<close>, \<^verbatim>\<open>digits.\<close>, \<^verbatim>\<open>.digits\<close> or
  \<^verbatim>\<open>digits.digits\<close>, as the digits before and after the point.\<close>

definition mantissa :: "string \<Rightarrow> (nat list \<times> nat list) option" where
  "mantissa s =
     (if CHR ''.'' \<in> set s
      then let ip = takeWhile (\<lambda>c. c \<noteq> CHR ''.'') s;
               fp = tl (dropWhile (\<lambda>c. c \<noteq> CHR ''.'') s)
           in if ip = [] \<and> fp = [] then None
              else (case (if ip = [] then Some [] else digitpart ip,
                          if fp = [] then Some [] else digitpart fp) of
                      (Some ipd, Some fpd) \<Rightarrow> Some (ipd, fpd)
                    | _ \<Rightarrow> None)
      else map_option (\<lambda>ipd. (ipd, [])) (digitpart s))"

text \<open>The exponent after the first \<^verbatim>\<open>e\<close> or \<^verbatim>\<open>E\<close>: an optional sign and a digit part.\<close>

definition is_e :: "char \<Rightarrow> bool" where
  "is_e c = (c = CHR ''e'' \<or> c = CHR ''E'')"

definition exponent :: "string \<Rightarrow> int option" where
  "exponent s =
     (if \<not> list_ex is_e s then Some 0
      else let (neg, body) = split_sign (tl (dropWhile (\<lambda>c. \<not> is_e c) s))
           in map_option (\<lambda>ds. signed neg (int (decimal ds))) (digitpart body))"

definition py_int_float :: "string \<Rightarrow> py_error + int" where
  "py_int_float s =
     (let (neg, body) = split_sign (strip_with ws_num s)
      in if lower body = ''inf'' \<or> lower body = ''infinity'' then Inl OverflowError
         else if lower body = ''nan'' then Inl ValueError
         else (case (mantissa (takeWhile (\<lambda>c. \<not> is_e c) body), exponent body) of
                 (Some (ipd, fpd), Some ex) \<Rightarrow>
                   (let m = decimal (ipd @ fpd);
                        e10 = ex - int (length fpd)
                    in case (if 0 \<le> e10 then trunc_double (m * 10 ^ nat e10) 1
                             else trunc_double m (10 ^ nat (- e10))) of
                         None \<Rightarrow> Inl OverflowError
                       | Some t \<Rightarrow> Inr (signed neg (int t)))
               | _ \<Rightarrow> Inl ValueError))"

subsection \<open>The functions of \<^verbatim>\<open>urllib.parse\<close> that the program calls\<close>

text \<open>
  \<^verbatim>\<open>urlparse\<close>, \<^verbatim>\<open>parse_qs\<close> and \<^verbatim>\<open>urlencode\<close> as CPython 3.11 defines them.
  \<^verbatim>\<open>urlsplit\<close> raises ValueError for a bracketed host that the \<^verbatim>\<open>ipaddress\<close>
  module refuses; that validation is the parameter \<open>host_ok\<close>. Its NFKC check of the
  network location never raises on Latin-1 text, where no character normalises to one
  of \<^verbatim>\<open>/?#@:\<close>.
\<close>

record url_parts =
  scheme :: string
  netloc :: string
  path :: string
  params :: string
  query :: string
  fragment :: string

definition before :: "char \<Rightarrow> string \<Rightarrow> string" where
  "before d s = takeWhile (\<lambda>c. c \<noteq> d) s"

definition after :: "char \<Rightarrow> string \<Rightarrow> string" where
  "after d s = drop 1 (dropWhile (\<lambda>c. c \<noteq> d) s)"

definition ascii_alpha :: "char \<Rightarrow> bool" where
  "ascii_alpha c = ((65 \<le> code c \<and> code c \<le> 90) \<or> (97 \<le> code c \<and> code c \<le> 122))"

definition scheme_char :: "char \<Rightarrow> bool" where
  "scheme_char c = (ascii_alpha c \<or> is_digit c \<or> c \<in> set ''+-.'')"

definition netloc_end :: "char \<Rightarrow> bool" where
  "netloc_end c = (c \<in> set ''/?#'')"

definition urlsplit :: "(string \<Rightarrow> bool) \<Rightarrow> string \<Rightarrow> py_error + url_parts" where
  "urlsplit host_ok url0 =
     (let url1 = dropWhile (\<lambda>c. code c \<le> 32) url0;
          url2 = filter (\<lambda>c. code c \<notin> {9, 13, 10}) url1;
          pre = before CHR '':'' url2;
          has_scheme = (CHR '':'' \<in> set url2 \<and> pre \<noteq> [] \<and> ascii_alpha (hd pre)
                        \<and> list_all scheme_char pre);
          sch = (if has_scheme then lower pre else []);
          url3 = (if has_scheme then after CHR '':'' url2 else url2);
          has_netloc = startswith url3 ''//'';
          nl = (if has_netloc then takeWhile (\<lambda>c. \<not> netloc_end c) (drop 2 url3) else []);
          url4 = (if has_netloc then dropWhile (\<lambda>c. \<not> netloc_end c) (drop 2 url3) else url3);
          url5 = before CHR ''#'' url4
      in if has_netloc \<and> ((CHR ''['' \<in> set nl) \<noteq> (CHR '']'' \<in> set nl))
         then Inl ValueError
         else if has_netloc \<and> CHR ''['' \<in> set nl \<and> CHR '']'' \<in> set nl
                 \<and> \<not> host_ok (before CHR '']'' (after CHR ''['' nl))
         then Inl ValueError
         else Inr \<lparr>scheme = sch, netloc = nl, path = before CHR ''?'' url5, params = [],
                    query = after CHR ''?'' url5, fragment = after CHR ''#'' url4\<rparr>)"

definition uses_params :: "string list" where
  "uses_params = [[], ''ftp'', ''hdl'', ''prospero'', ''http'', ''imap'', ''https'', ''shttp'',
                  ''rtsp'', ''rtsps'', ''rtspu'', ''sip'', ''sips'', ''mms'', ''sftp'', ''tel'']"

text \<open>\<^verbatim>\<open>_splitparams\<close>: the parameters start at the first semicolon of the last
  path segment. Without a slash and without a semicolon, \<^verbatim>\<open>find\<close> gives -1 and the
  slices are \<^verbatim>\<open>url[:-1]\<close> and \<^verbatim>\<open>url[0:]\<close>.\<close>

definition splitparams :: "string \<Rightarrow> string \<times> string" where
  "splitparams url =
     (if CHR ''/'' \<in> set url
      then let seg = rev (before CHR ''/'' (rev url));
               dir = take (length url - length seg) url
           in if CHR '';'' \<in> set seg then (dir @ before CHR '';'' seg, after CHR '';'' seg)
              else (url, [])
      else if CHR '';'' \<in> set url then (before CHR '';'' url, after CHR '';'' url)
      else (butlast url, url))"

definition urlparse :: "(string \<Rightarrow> bool) \<Rightarrow> string \<Rightarrow> py_error + url_parts" where
  "urlparse host_ok url =
     (case urlsplit host_ok url of
        Inl e \<Rightarrow> Inl e
      | Inr r \<Rightarrow>
          if scheme r \<in> set uses_params \<and> CHR '';'' \<in> set (path r)
          then Inr (r\<lparr>path := fst (splitparams (path r)), params := snd (splitparams (path r))\<rparr>)
          else Inr r)"

text \<open>
  Percent-decoding gives bytes, which are read as UTF-8 with invalid sequences replaced
  by U+FFFD; the decoded keys and values are sequences of code points, which may lie
  beyond Latin-1.
\<close>

type_synonym ustring = "nat list"

definition is_hex :: "char \<Rightarrow> bool" where
  "is_hex c = (c \<in> set ''0123456789ABCDEFabcdef'')"

definition hex_val :: "char \<Rightarrow> nat" where
  "hex_val c = (if is_digit c then code c - 48
                else if code c < 97 then code c - 55 else code c - 87)"

fun unquote_to_bytes :: "string \<Rightarrow> nat list" where
  "unquote_to_bytes [] = []"
| "unquote_to_bytes [c] = [code c]"
| "unquote_to_bytes [c, d] = [code c, code d]"
| "unquote_to_bytes (c # a # b # cs) =
     (if c = CHR ''%'' \<and> is_hex a \<and> is_hex b
      then (16 * hex_val a + hex_val b) # unquote_to_bytes cs
      else code c # unquote_to_bytes (a # b # cs))"

text \<open>The UTF-8 decoder with \<^verbatim>\<open>errors='replace'\<close>. The state is empty between
  characters, or holds the number of continuation bytes still needed, the bits read
  so far and the range allowed for the next byte.\<close>

fun utf8_decode_from :: "(nat \<times> nat \<times> nat \<times> nat) option \<Rightarrow> nat list \<Rightarrow> ustring" where
  "utf8_decode_from None [] = []"
| "utf8_decode_from (Some st) [] = [65533]"
| "utf8_decode_from None (b # bs) =
     (if b < 128 then b # utf8_decode_from None bs
      else if 194 \<le> b \<and> b \<le> 223 then utf8_decode_from (Some (1, b mod 32, 128, 191)) bs
      else if b = 224 then utf8_decode_from (Some (2, b mod 16, 160, 191)) bs
      else if b = 237 then utf8_decode_from (Some (2, b mod 16, 128, 159)) bs
      else if 225 \<le> b \<and> b \<le> 239 then utf8_decode_from (Some (2, b mod 16, 128, 191)) bs
      else if b = 240 then utf8_decode_from (Some (3, b mod 8, 144, 191)) bs
      else if b = 244 then utf8_decode_from (Some (3, b mod 8, 128, 143)) bs
      else if 241 \<le> b \<and> b \<le> 243 then utf8_decode_from (Some (3, b mod 8, 128, 191)) bs
      else 65533 # utf8_decode_from None bs)"
| "utf8_decode_from (Some (need, cp, lo, hi)) (b # bs) =
     (if lo \<le> b \<and> b \<le> hi
      then (if need \<le> 1 then (cp * 64 + b mod 64) # utf8_decode_from None bs
            else utf8_decode_from (Some (need - 1, cp * 64 + b mod 64, 128, 191)) bs)
      else 65533 # utf8_decode_from None (b # bs))"

definition utf8_decode :: "nat list \<Rightarrow> ustring" where
  "utf8_decode bs = utf8_decode_from None bs"

text \<open>\<^verbatim>\<open>unquote\<close>: every maximal ASCII run is percent-decoded and read as UTF-8,
  the other characters stay. The first argument is the current run, reversed.\<close>

fun unquote_runs :: "string \<Rightarrow> string \<Rightarrow> ustring" where
  "unquote_runs run [] = utf8_decode (unquote_to_bytes (rev run))"
| "unquote_runs run (c # cs) =
     (if code c < 128 then unquote_runs (c # run) cs
      else utf8_decode (unquote_to_bytes (rev run)) @ code c # unquote_runs [] cs)"

definition unquote_plus :: "string \<Rightarrow> ustring" where
  "unquote_plus s = unquote_runs [] (map (\<lambda>c. if c = CHR ''+'' then CHR '' '' else c) s)"

definition parse_qsl :: "string \<Rightarrow> (ustring \<times> ustring) list" where
  "parse_qsl qs =
     (if qs = [] then []
      else concat (map (\<lambda>name_value.
             if name_value \<noteq> [] \<and> after CHR ''='' name_value \<noteq> []
             then [(unquote_plus (before CHR ''='' name_value),
                    unquote_plus (after CHR ''='' name_value))]
             else [])
           (split_on CHR ''&'' qs)))"

text \<open>A dict keeps its keys in the order of their first insertion.\<close>

type_synonym query_dict = "(ustring \<times> ustring list) list"

definition dict_add :: "query_dict \<Rightarrow> ustring \<times> ustring \<Rightarrow> query_dict" where
  "dict_add d kv =
     (if fst kv \<in> fst ` set d
      then map (\<lambda>(k, vs). if k = fst kv then (k, vs @ [snd kv]) else (k, vs)) d
      else d @ [(fst kv, [snd kv])])"

definition parse_qs :: "string \<Rightarrow> query_dict" where
  "parse_qs qs = foldl dict_add [] (parse_qsl qs)"

definition dict_pop :: "query_dict \<Rightarrow> ustring \<Rightarrow> query_dict" where
  "dict_pop d k = filter (\<lambda>(k', vs). k' \<noteq> k) d"

fun utf8_encode :: "ustring \<Rightarrow> nat list" where
  "utf8_encode [] = []"
| "utf8_encode (c # cs) =
     (if c < 128 then [c]
      else if c < 2048 then [192 + c div 64, 128 + c mod 64]
      else if c < 65536 then [224 + c div 4096, 128 + c div 64 mod 64, 128 + c mod 64]
      else [240 + c div 262144, 128 + c div 4096 mod 64, 128 + c div 64 mod 64, 128 + c mod 64])
     @ utf8_encode cs"

definition always_safe :: "nat \<Rightarrow> bool" where
  "always_safe b =
     ((65 \<le> b \<and> b \<le> 90) \<or> (97 \<le> b \<and> b \<le> 122) \<or> (48 \<le> b \<and> b \<le> 57) \<or> b \<in> {95, 46, 45, 126})"

definition hex_digit :: "nat \<Rightarrow> char" where
  "hex_digit d = ''0123456789ABCDEF'' ! d"

definition quote_byte :: "nat \<Rightarrow> string" where
  "quote_byte b =
     (if always_safe b then [char_of b]
      else if b = 32 then ''+''
      else [CHR ''%'', hex_digit (b div 16), hex_digit (b mod 16)])"

definition quote_plus :: "ustring \<Rightarrow> string" where
  "quote_plus s = concat (map quote_byte (utf8_encode s))"

definition urlencode :: "query_dict \<Rightarrow> string" where
  "urlencode d =
     join ''&'' (concat (map (\<lambda>(k, vs). map (\<lambda>v. quote_plus k @ ''='' @ quote_plus v) vs) d))"

definition ustr :: "string \<Rightarrow> ustring" where
  "ustr s = map code s"

section \<open>Normalizer\<close>

definition normalize_text :: "cell \<Rightarrow> string" where
  "normalize_text text =
     (if isna text then []
      else let t = lower (py_str text);
               t = concat (map nfkd_ascii t)
           in filter (\<lambda>c. c \<in> az09) t)"

text \<open>\<^verbatim>\<open>clean_youtube_url\<close>; \<open>Inr None\<close> is the result \<^verbatim>\<open>None\<close>.\<close>

definition params_to_remove :: "string list" where
  "params_to_remove = [''list'', ''index'', ''start_radio'', ''pp'']"

definition clean_youtube_url :: "(string \<Rightarrow> bool) \<Rightarrow> cell \<Rightarrow> py_error + string option" where
  "clean_youtube_url host_ok url =
     (if isna url \<or> falsy url then Inr None
      else case urlparse host_ok (strip (py_str url)) of
             Inl e \<Rightarrow> Inl e
           | Inr parsed \<Rightarrow>
               let query_params = foldl dict_pop (parse_qs (query parsed)) (map ustr params_to_remove)
               in if query_params \<noteq> []
                  then Inr (Some (scheme parsed @ ''://'' @ netloc parsed @ path parsed @ ''?''
                                  @ urlencode query_params))
                  else Inr (Some (scheme parsed @ ''://'' @ netloc parsed @ path parsed)))"

text \<open>
  \<^verbatim>\<open>parse_timestamp\<close>: the \<^verbatim>\<open>try\<close> block catches ValueError and TypeError and
  returns 0; any other exception leaves the function.
\<close>

definition parse_timestamp :: "cell \<Rightarrow> py_error + int" where
  "parse_timestamp ts =
     (if isna ts \<or> falsy ts then Inr 0
      else
        let ts_str = strip (py_str ts)
        in case split_on CHR '':'' ts_str of
             [p0, p1, p2] \<Rightarrow>
               (case (py_int p0, py_int p1, py_int p2) of
                  (Some h, Some m, Some s) \<Rightarrow>
                    if h < 10 \<and> s = 0 then Inr (h * 60 + m)
                    else Inr (h * 3600 + m * 60 + s)
                | _ \<Rightarrow> Inr 0)
           | [p0, p1] \<Rightarrow>
               (case (py_int p0, py_int p1) of
                  (Some a, Some b) \<Rightarrow> Inr (a * 60 + b)
                | _ \<Rightarrow> Inr 0)
           | _ \<Rightarrow>
               (case py_int_float ts_str of
                  Inl ValueError \<Rightarrow> Inr 0
                | Inl e \<Rightarrow> Inl e
                | Inr n \<Rightarrow> Inr n))"

section \<open>Metadata provider\<close>

text \<open>
  \<^verbatim>\<open>get_youtube_info\<close> returns \<^verbatim>\<open>None\<close> for an empty URL, and otherwise what
  yt-dlp gives: a dictionary of the eight attributes, or the dictionary
  \<^verbatim>\<open>{'error': message}\<close> when yt-dlp raised. The lookup itself is the parameter
  \<open>fetch\<close>. An attribute that yt-dlp reports as \<^verbatim>\<open>None\<close> is \<open>None\<close> in the record.
\<close>

record metadata =
  title :: "string option"
  description :: "string option"
  duration :: "int option"
  age_limit :: "int option"
  categories :: "string list option"
  tags :: "string list option"
  channel :: "string option"
  uploader :: "string option"

datatype fetched = Info metadata | FetchError string

definition get_youtube_info :: "(string \<Rightarrow> fetched) \<Rightarrow> string \<Rightarrow> fetched option" where
  "get_youtube_info fetch url = (if url = [] then None else Some (fetch url))"

section \<open>Rule engine\<close>

text \<open>
  Every check returns either \<^verbatim>\<open>(True, None)\<close> or \<^verbatim>\<open>(False, message)\<close>:
  \<open>Pass\<close> and \<open>Fail message\<close>.
\<close>

datatype check = Pass | Fail string

definition MAX_SONG_DURATION_SECONDS :: int where
  "MAX_SONG_DURATION_SECONDS = 90"

definition quoted :: "string \<Rightarrow> string" where
  "quoted s = [CHR 0x27] @ s @ [CHR 0x27]"

definition could_not_fetch :: string where
  "could_not_fetch = ''Video konnte nicht abgerufen werden / Could not fetch video''"

definition lyric_indicators :: "string list" where
  "lyric_indicators = [''lyric'', ''lyrics'', ''lyric video'', ''lyrics video'', ''letra'',
                       ''text'', ''sing-along'', ''singalong'']"

definition negative_indicators :: "string list" where
  "negative_indicators = [''official mv'', ''official music video'', ''dance practice'',
                          ''dance practice video'', ''choreography video'',
                          ''performance video'', ''m/v'', ''(mv)'', ''[mv]'']"

definition not_a_lyric_video :: "string \<Rightarrow> string" where
  "not_a_lyric_video neg =
     ''Kein Lyric Video ('' @ quoted neg @ '' im Titel gefunden) / Not a lyric video (''
     @ quoted neg @ '' found in title)''"

text \<open>
  \<^verbatim>\<open>check_is_lyric_video\<close> calls \<^verbatim>\<open>.lower()\<close> on the title and on the description:
  on \<^verbatim>\<open>None\<close> that raises AttributeError. Tags that are \<^verbatim>\<open>None\<close> or empty are read
  as the empty list.
\<close>

fun check_is_lyric_video :: "fetched option \<Rightarrow> py_error + check" where
  "check_is_lyric_video None = Inr (Fail could_not_fetch)"
| "check_is_lyric_video (Some (FetchError e)) = Inr (Fail could_not_fetch)"
| "check_is_lyric_video (Some (Info video_info)) =
     (case title video_info of
        None \<Rightarrow> Inl AttributeError
      | Some t \<Rightarrow>
          (case description video_info of
             None \<Rightarrow> Inl AttributeError
           | Some d \<Rightarrow>
               let title_lower = lower (lower t);
                   descr = lower d;
                   tgs = (case tags video_info of None \<Rightarrow> [] | Some ts \<Rightarrow> map lower ts)
               in case find (\<lambda>neg. py_in neg title_lower) negative_indicators of
                    Some neg \<Rightarrow> Inr (Fail (not_a_lyric_video neg))
                  | None \<Rightarrow>
                      if list_ex (\<lambda>pos. py_in pos title_lower \<or> py_in pos descr
                                     \<or> pos \<in> set tgs)
                           lyric_indicators
                      then Inr Pass
                      else Inr Pass))"

definition artist_not_found :: "cell \<Rightarrow> string" where
  "artist_not_found artist =
     ''K'' @ [CHR 0xFC] @ ''nstler '' @ quoted (py_str artist)
     @ '' nicht im YouTube-Titel gefunden / Artist '' @ quoted (py_str artist)
     @ '' not found in YouTube title''"

definition title_not_found :: "cell \<Rightarrow> string" where
  "title_not_found song_title =
     ''Songtitel '' @ quoted (py_str song_title)
     @ '' nicht im YouTube-Titel gefunden / Song title '' @ quoted (py_str song_title)
     @ '' not found in YouTube title''"

text \<open>A title as the value that \<^verbatim>\<open>normalize_text\<close> receives: \<^verbatim>\<open>pd.isna(None)\<close>
  holds.\<close>

fun text_cell :: "string option \<Rightarrow> cell" where
  "text_cell None = Missing"
| "text_cell (Some t) = Str t"

fun check_artist_title_match :: "fetched option \<Rightarrow> cell \<Rightarrow> cell \<Rightarrow> check" where
  "check_artist_title_match None artist song_title = Fail could_not_fetch"
| "check_artist_title_match (Some (FetchError e)) artist song_title = Fail could_not_fetch"
| "check_artist_title_match (Some (Info video_info)) artist song_title =
     (let yt_title_normalized = normalize_text (text_cell (title video_info));
          artist_normalized = normalize_text artist;
          errors = (if artist_normalized \<noteq> [] \<and> \<not> py_in artist_normalized yt_title_normalized
                    then [artist_not_found artist] else []);
          title_normalized = normalize_text song_title;
          errors = errors @
                   (if title_normalized \<noteq> [] \<and> \<not> py_in title_normalized yt_title_normalized
                    then [title_not_found song_title] else [])
      in if errors \<noteq> [] then Fail (join ''; '' errors) else Pass)"

definition invalid_timestamps :: "cell \<Rightarrow> cell \<Rightarrow> string" where
  "invalid_timestamps start_ts end_ts =
     ''Ung'' @ [CHR 0xFC] @ ''ltige Timestamps (Start: '' @ py_str start_ts @ '', Ende: ''
     @ py_str end_ts @ '') / Invalid timestamps (Start: '' @ py_str start_ts @ '', End: ''
     @ py_str end_ts @ '')''"

definition section_too_long :: "int \<Rightarrow> string" where
  "section_too_long d =
     ''Songabschnitt zu lang ('' @ show_int d @ ''s > '' @ show_int MAX_SONG_DURATION_SECONDS
     @ ''s) / Song section too long ('' @ show_int d @ ''s > ''
     @ show_int MAX_SONG_DURATION_SECONDS @ ''s)''"

definition check_duration :: "cell \<Rightarrow> cell \<Rightarrow> py_error + check" where
  "check_duration start_ts end_ts =
     (case parse_timestamp start_ts of
        Inl e \<Rightarrow> Inl e
      | Inr start_seconds \<Rightarrow>
          (case parse_timestamp end_ts of
             Inl e \<Rightarrow> Inl e
           | Inr end_seconds \<Rightarrow>
               let d = end_seconds - start_seconds
               in if d \<le> 0 then Inr (Fail (invalid_timestamps start_ts end_ts))
                  else if d > MAX_SONG_DURATION_SECONDS then Inr (Fail (section_too_long d))
                  else Inr Pass))"

definition age_restricted :: string where
  "age_restricted = ''18+ Video nicht erlaubt / 18+ video not allowed''"

fun check_age_restriction :: "fetched option \<Rightarrow> check" where
  "check_age_restriction None = Pass"
| "check_age_restriction (Some (FetchError e)) = Pass"
| "check_age_restriction (Some (Info video_info)) =
     (case age_limit video_info of
        None \<Rightarrow> Pass
      | Some limit \<Rightarrow> if limit \<noteq> 0 \<and> limit \<ge> 18 then Fail age_restricted else Pass)"

definition on_blocked_list :: string where
  "on_blocked_list = ''Song ist auf der Blockliste / Song is on the blocked list''"

definition check_blocked_song :: "cell \<Rightarrow> cell \<Rightarrow> (string \<times> string) set \<Rightarrow> check" where
  "check_blocked_song artist song_title blocked_songs =
     (if (normalize_text artist, normalize_text song_title) \<in> blocked_songs
      then Fail on_blocked_list else Pass)"

text \<open>\<^verbatim>\<open>if not ok: errors.append(error)\<close>.\<close>

fun reasons :: "check \<Rightarrow> string list" where
  "reasons Pass = []"
| "reasons (Fail msg) = [msg]"

definition no_url :: string where
  "no_url = ''Keine URL angegeben / No URL provided''"

definition youtube_error :: "string \<Rightarrow> string" where
  "youtube_error e = ''YouTube-Fehler: '' @ e @ '' / YouTube error: '' @ e"

text \<open>
  A row of the input table, one field per named column (\<^verbatim>\<open>Email Address\<close>,
  \<^verbatim>\<open>Sprache der Regeln\<close>, \<^verbatim>\<open>Bevorzugte Kommunikation\<close>, \<^verbatim>\<open>Instagram @Name\<close>,
  \<^verbatim>\<open>WhatsApp Number\<close>, \<^verbatim>\<open>Weitere Kontaktmoeglichkeit\<close> (written with o-umlaut),
  the six columns of the first song and, with the suffix \<^verbatim>\<open>.1\<close>, of the second
  song). \<^verbatim>\<open>row.get\<close> of a column that the table lacks gives the empty string.
\<close>

record row =
  Email_Address :: cell
  Sprache_der_Regeln :: cell
  Bevorzugte_Kommunikation :: cell
  Instagram_Name :: cell
  WhatsApp_Number :: cell
  Weitere_Kontaktmoeglichkeit :: cell
  YT_URL :: cell
  Kuenstler :: cell
  Songname :: cell
  Start_Timestamp :: cell
  End_Timestamp :: cell
  Anmerkung :: cell
  YT_URL_1 :: cell
  Kuenstler_1 :: cell
  Songname_1 :: cell
  Start_Timestamp_1 :: cell
  End_Timestamp_1 :: cell
  Anmerkung_1 :: cell

text \<open>
  The external collaborators of a run: the validation of bracketed hosts inside
  \<^verbatim>\<open>urlparse\<close>, the metadata lookup, and the text of \<^verbatim>\<open>create_message\<close> for a row,
  a verdict, a language and the form URL (its templates hold characters beyond
  Latin-1).
\<close>

record env =
  host_ok :: "string \<Rightarrow> bool"
  fetch :: "string \<Rightarrow> fetched"
  create_message :: "row \<Rightarrow> string list \<Rightarrow> cell \<Rightarrow> string \<Rightarrow> string"

definition validate_song ::
  "env \<Rightarrow> cell \<Rightarrow> cell \<Rightarrow> cell \<Rightarrow> cell \<Rightarrow> cell \<Rightarrow> (string \<times> string) set
   \<Rightarrow> py_error + (string list \<times> string option)" where
  "validate_song ev url artist song_title start_ts end_ts blocked_songs =
     (case clean_youtube_url (host_ok ev) url of
        Inl e \<Rightarrow> Inl e
      | Inr None \<Rightarrow> Inr ([no_url], None)
      | Inr (Some clean_url) \<Rightarrow>
          if clean_url = [] then Inr ([no_url], Some clean_url)
          else
            let video_info = get_youtube_info (fetch ev) clean_url
            in case video_info of
                 Some (FetchError err) \<Rightarrow> Inr ([youtube_error err], Some clean_url)
               | _ \<Rightarrow>
                   (case check_is_lyric_video video_info of
                      Inl e \<Rightarrow> Inl e
                    | Inr lyric_check \<Rightarrow>
                        (case check_duration start_ts end_ts of
                           Inl e \<Rightarrow> Inl e
                         | Inr duration_check \<Rightarrow>
                             Inr (reasons (check_artist_title_match video_info artist song_title)
                                  @ reasons lyric_check
                                  @ reasons duration_check
                                  @ reasons (check_age_restriction video_info)
                                  @ reasons (check_blocked_song artist song_title blocked_songs),
                                  Some clean_url))))"

section \<open>Processing a batch\<close>

definition FIRST_GUARANTEED_COUNT :: nat where
  "FIRST_GUARANTEED_COUNT = 50"

definition create_contact_url :: "row \<Rightarrow> string" where
  "create_contact_url r =
     (let preference = Bevorzugte_Kommunikation r;
          instagram = Instagram_Name r;
          phone = WhatsApp_Number r;
          other = Weitere_Kontaktmoeglichkeit r;
          fallback = (if \<not> isna other \<and> \<not> falsy other then py_str other else [])
      in if preference = Str ''Instagram''
         then (if \<not> isna instagram \<and> \<not> falsy instagram
               then let name = strip (py_str instagram)
                    in ''https://www.instagram.com/''
                       @ (if startswith name ''@'' then drop 1 name else name)
               else fallback)
         else if preference = Str ''WhatsApp''
         then (if \<not> isna phone \<and> \<not> falsy phone
               then let digits = filter (\<lambda>c. is_digit c \<or> c = CHR ''+'') (py_str phone);
                        number = (if \<not> startswith digits ''+'' then ''+'' @ digits else digits)
                    in ''https://wa.me/'' @ filter (\<lambda>c. c \<noteq> CHR ''+'') number
               else fallback)
         else fallback)"

text \<open>The dictionary that the main loop appends to \<^verbatim>\<open>results\<close> for one row.\<close>

record result =
  row_index :: nat
  email :: cell
  language :: cell
  contact_pref :: cell
  instagram :: cell
  whatsapp :: cell
  other_contact :: cell
  url1 :: "string option"
  artist1 :: cell
  title1 :: cell
  start1 :: cell
  end1 :: cell
  note1 :: cell
  errors1 :: "string list"
  url2 :: "string option"
  artist2 :: cell
  title2 :: cell
  start2 :: cell
  end2 :: cell
  note2 :: cell
  errors2 :: "string list"
  contact_url :: string
  message :: string

definition song_wish ::
  "env \<Rightarrow> (string \<times> string) set \<Rightarrow> string \<Rightarrow> nat \<Rightarrow> row \<Rightarrow> py_error + result" where
  "song_wish ev blocked_songs form_url idx r =
     (case validate_song ev (YT_URL r) (Kuenstler r) (Songname r) (Start_Timestamp r)
             (End_Timestamp r) blocked_songs of
        Inl e \<Rightarrow> Inl e
      | Inr (errs1, clean_url1) \<Rightarrow>
          (case (if \<not> isna (YT_URL_1 r) \<and> \<not> falsy (YT_URL_1 r)
                 then validate_song ev (YT_URL_1 r) (Kuenstler_1 r) (Songname_1 r)
                        (Start_Timestamp_1 r) (End_Timestamp_1 r) blocked_songs
                 else Inr ([], None)) of
             Inl e \<Rightarrow> Inl e
           | Inr (errs2, clean_url2) \<Rightarrow>
               Inr \<lparr>row_index = idx, email = Email_Address r, language = Sprache_der_Regeln r,
                    contact_pref = Bevorzugte_Kommunikation r, instagram = Instagram_Name r,
                    whatsapp = WhatsApp_Number r, other_contact = Weitere_Kontaktmoeglichkeit r,
                    url1 = clean_url1, artist1 = Kuenstler r, title1 = Songname r,
                    start1 = Start_Timestamp r, end1 = End_Timestamp r, note1 = Anmerkung r,
                    errors1 = errs1,
                    url2 = clean_url2, artist2 = Kuenstler_1 r, title2 = Songname_1 r,
                    start2 = Start_Timestamp_1 r, end2 = End_Timestamp_1 r,
                    note2 = Anmerkung_1 r, errors2 = errs2,
                    contact_url = create_contact_url r,
                    message = create_message ev r errs1 (Sprache_der_Regeln r) form_url\<rparr>))"

fun song_wishes ::
  "env \<Rightarrow> (string \<times> string) set \<Rightarrow> string \<Rightarrow> nat \<Rightarrow> row list \<Rightarrow> py_error + result list" where
  "song_wishes ev blocked_songs form_url idx [] = Inr []"
| "song_wishes ev blocked_songs form_url idx (r # rest) =
     (case song_wish ev blocked_songs form_url idx r of
        Inl e \<Rightarrow> Inl e
      | Inr res \<Rightarrow>
          (case song_wishes ev blocked_songs form_url (Suc idx) rest of
             Inl e \<Rightarrow> Inl e
           | Inr ress \<Rightarrow> Inr (res # ress)))"

section \<open>Report assembler\<close>

text \<open>
  A worksheet is a store from (row, column), both counted from 1, to the value and to
  the background fill of a cell; \<^verbatim>\<open>ws.cell(row, column, value)\<close> updates the store. Fonts
  and column widths are left out.
\<close>

datatype xl = XStr string | XInt int | XCell cell

datatype fill = Fill string

definition header_fill :: fill where "header_fill = Fill ''CCCCCC''"
definition error_fill :: fill where "error_fill = Fill ''FFCCCC''"
definition success_fill :: fill where "success_fill = Fill ''CCFFCC''"

record sheet =
  cells :: "nat \<times> nat \<Rightarrow> xl option"
  fills :: "nat \<times> nat \<Rightarrow> fill option"

definition empty_sheet :: sheet where
  "empty_sheet = \<lparr>cells = (\<lambda>p. None), fills = (\<lambda>p. None)\<rparr>"

definition set_value :: "sheet \<Rightarrow> nat \<Rightarrow> nat \<Rightarrow> xl \<Rightarrow> sheet" where
  "set_value ws r c v = ws\<lparr>cells := (cells ws)((r, c) \<mapsto> v)\<rparr>"

definition set_fill :: "sheet \<Rightarrow> nat \<Rightarrow> nat \<Rightarrow> fill \<Rightarrow> sheet" where
  "set_fill ws r c f = ws\<lparr>fills := (fills ws)((r, c) \<mapsto> f)\<rparr>"

text \<open>The values of one row, written to the columns \<open>c\<close>, \<open>c + 1\<close>, \<dots>; and one fill
  for a list of columns.\<close>

fun write_from :: "sheet \<Rightarrow> nat \<Rightarrow> nat \<Rightarrow> xl list \<Rightarrow> sheet" where
  "write_from ws r c [] = ws"
| "write_from ws r c (v # vs) = write_from (set_value ws r c v) r (Suc c) vs"

fun fill_cols :: "sheet \<Rightarrow> nat \<Rightarrow> nat list \<Rightarrow> fill \<Rightarrow> sheet" where
  "fill_cols ws r [] f = ws"
| "fill_cols ws r (c # cs) f = fill_cols (set_fill ws r c f) r cs f"

definition write_headers :: "sheet \<Rightarrow> string list \<Rightarrow> sheet" where
  "write_headers ws headers =
     fill_cols (write_from ws 1 1 (map XStr headers)) 1 [1..<Suc (length headers)] header_fill"

definition headers :: "string list" where
  "headers = [''#'', ''Contact URL'', ''Message'', ''Status'', ''Artist'', ''Title'', ''Errors'']"

definition songlist_headers :: "string list" where
  "songlist_headers = [''YouTube-URL'', ''Artist'', ''Title'', ''Description'',
     ''Requester/Dancer'', ''Start: Minute'', ''Start: Second'', ''End: Minute'',
     ''End: Seconds'', ''Start in Seconds'', ''End in Seconds'', ''#'', ''Anmerkung'',
     ''Errors'']"

text \<open>The body of the loop over \<^verbatim>\<open>enumerate(results[:FIRST_GUARANTEED_COUNT])\<close>.\<close>

definition message_values :: "nat \<Rightarrow> result \<Rightarrow> xl list" where
  "message_values i res =
     [XInt (int i + 1), XStr (contact_url res), XStr (message res),
      XStr (if errors1 res \<noteq> [] then ''Fehler / Error'' else ''OK''),
      XCell (artist1 res), XCell (title1 res),
      XStr (if errors1 res \<noteq> [] then join ''; '' (errors1 res) else [])]"

definition message_row :: "sheet \<Rightarrow> nat \<Rightarrow> result \<Rightarrow> sheet" where
  "message_row ws i res =
     (let row_num = i + 2;
          has_errors = (errors1 res \<noteq> []);
          ws = write_from ws row_num 1 (message_values i res)
      in fill_cols ws row_num [1..<8] (if has_errors then error_fill else success_fill))"

fun message_rows :: "sheet \<Rightarrow> nat \<Rightarrow> result list \<Rightarrow> sheet" where
  "message_rows ws i [] = ws"
| "message_rows ws i (res # rest) = message_rows (message_row ws i res) (Suc i) rest"

text \<open>One song of a result, as the two songlist loops read it: URL, artist, title,
  start, end, note, errors.\<close>

type_synonym song = "string option \<times> cell \<times> cell \<times> cell \<times> cell \<times> cell \<times> string list"

definition first_song :: "result \<Rightarrow> song" where
  "first_song res =
     (url1 res, artist1 res, title1 res, start1 res, end1 res, note1 res, errors1 res)"

definition second_song :: "result \<Rightarrow> song" where
  "second_song res =
     (url2 res, artist2 res, title2 res, start2 res, end2 res, note2 res, errors2 res)"

text \<open>The fourteen values that the body of a songlist loop writes, and the body.\<close>

definition song_values ::
  "string \<Rightarrow> cell \<Rightarrow> cell \<Rightarrow> cell \<Rightarrow> int \<Rightarrow> int \<Rightarrow> nat \<Rightarrow> cell \<Rightarrow> string list \<Rightarrow> xl list" where
  "song_values url artist song_title requester start_seconds end_seconds song_counter note errors =
     [XStr url, XCell artist, XCell song_title, XStr [], XCell requester,
      XInt (start_seconds div 60), XInt (start_seconds mod 60),
      XInt (end_seconds div 60), XInt (end_seconds mod 60),
      XInt start_seconds, XInt end_seconds, XInt (int song_counter),
      (if \<not> isna note then XCell note else XStr []),
      XStr (if errors \<noteq> [] then join ''; '' errors else [])]"

definition song_row :: "sheet \<Rightarrow> nat \<Rightarrow> xl list \<Rightarrow> string list \<Rightarrow> sheet" where
  "song_row ws row_num values errors =
     (let ws = write_from ws row_num 1 values
      in if errors \<noteq> [] then fill_cols ws row_num [1..<15] error_fill else ws)"

text \<open>A songlist loop over all results, for the first or for the second songs; the
  state is the sheet, \<^verbatim>\<open>row_num\<close> and \<^verbatim>\<open>song_counter\<close>.\<close>

fun song_rows ::
  "(result \<Rightarrow> song) \<Rightarrow> result list \<Rightarrow> sheet \<times> nat \<times> nat \<Rightarrow> py_error + sheet \<times> nat \<times> nat" where
  "song_rows sel [] st = Inr st"
| "song_rows sel (res # rest) (ws, row_num, song_counter) =
     (case sel res of
        (None, artist, song_title, start_ts, end_ts, note, errors) \<Rightarrow>
          song_rows sel rest (ws, row_num, song_counter)
      | (Some url, artist, song_title, start_ts, end_ts, note, errors) \<Rightarrow>
          if url = [] then song_rows sel rest (ws, row_num, song_counter)
          else
            (case parse_timestamp start_ts of
               Inl e \<Rightarrow> Inl e
             | Inr start_seconds \<Rightarrow>
                 (case parse_timestamp end_ts of
                    Inl e \<Rightarrow> Inl e
                  | Inr end_seconds \<Rightarrow>
                      song_rows sel rest
                        (song_row ws row_num
                           (song_values url artist song_title (email res) start_seconds
                              end_seconds song_counter note errors)
                           errors,
                         row_num + 1, song_counter + 1))))"

record workbook =
  Messages :: sheet
  Songlist :: sheet

text \<open>The rows that are read as submissions: the first row is dropped when its language
  cell holds the word \<^verbatim>\<open>Language\<close>; an empty table has no first row to look at.\<close>

definition submissions :: "row list \<Rightarrow> py_error + row list" where
  "submissions df =
     (case df of
        [] \<Rightarrow> Inl IndexError
      | r # rest \<Rightarrow>
          if \<not> isna (Sprache_der_Regeln r) \<and> py_in ''Language'' (py_str (Sprache_der_Regeln r))
          then Inr rest else Inr df)"

definition process_songwishes ::
  "env \<Rightarrow> (string \<times> string) set \<Rightarrow> string \<Rightarrow> row list \<Rightarrow> py_error + workbook" where
  "process_songwishes ev blocked_songs form_url df =
     (case submissions df of
        Inl e \<Rightarrow> Inl e
      | Inr rows \<Rightarrow>
          (case song_wishes ev blocked_songs form_url 0 rows of
             Inl e \<Rightarrow> Inl e
           | Inr results \<Rightarrow>
               let ws_messages = write_headers empty_sheet headers;
                   ws_messages = message_rows ws_messages 0 (take FIRST_GUARANTEED_COUNT results);
                   ws_songlist = write_headers empty_sheet songlist_headers
               in case song_rows first_song results (ws_songlist, 2, 1) of
                    Inl e \<Rightarrow> Inl e
                  | Inr (ws_songlist, row_num, song_counter) \<Rightarrow>
                      (case song_rows second_song results (ws_songlist, row_num, song_counter) of
                         Inl e \<Rightarrow> Inl e
                       | Inr (ws_songlist, row_num, song_counter) \<Rightarrow>
                           Inr \<lparr>Messages = ws_messages, Songlist = ws_songlist\<rparr>)))"

text \<open>The data rows of a sheet: the rows below the header row that hold a value.\<close>

definition data_rows :: "sheet \<Rightarrow> nat set" where
  "data_rows ws = {r. 2 \<le> r \<and> (\<exists>c. cells ws (r, c) \<noteq> None)}"

text \<open>
  For the statements about the songlist: the songs of a loop that have a URL, the values
  written for such a song, its reasons, and the results whose first or second song has a
  canonical URL.
\<close>

definition has_url :: "(result \<Rightarrow> song) \<Rightarrow> result \<Rightarrow> bool" where
  "has_url sel res = (case fst (sel res) of None \<Rightarrow> False | Some url \<Rightarrow> url \<noteq> [])"

definition song_values_of :: "(result \<Rightarrow> song) \<Rightarrow> result \<Rightarrow> nat \<Rightarrow> xl list" where
  "song_values_of sel res song_counter =
     (case sel res of
        (None, artist, song_title, start_ts, end_ts, note, errors) \<Rightarrow> []
      | (Some url, artist, song_title, start_ts, end_ts, note, errors) \<Rightarrow>
          (case (parse_timestamp start_ts, parse_timestamp end_ts) of
             (Inr start_seconds, Inr end_seconds) \<Rightarrow>
               song_values url artist song_title (email res) start_seconds end_seconds
                 song_counter note errors
           | _ \<Rightarrow> []))"

definition song_errors :: "(result \<Rightarrow> song) \<Rightarrow> result \<Rightarrow> string list" where
  "song_errors sel res = snd (snd (snd (snd (snd (snd (sel res))))))"

definition with_first_song :: "result list \<Rightarrow> result list" where
  "with_first_song results = filter (\<lambda>res. url1 res \<noteq> None) results"

definition with_second_song :: "result list \<Rightarrow> result list" where
  "with_second_song results = filter (\<lambda>res. url2 res \<noteq> None) results"

section \<open>Message rendering\<close>

text \<open>
  \<^verbatim>\<open>create_message\<close> lists, for every reason \<^verbatim>\<open>e\<close> of the verdict, the half
  \<^verbatim>\<open>e.split(' / ')[0]\<close> in a German message and \<^verbatim>\<open>e.split(' / ')[-1]\<close> otherwise.
  \<open>split_str\<close> is \<^verbatim>\<open>str.split\<close> for a non-empty separator; its counter holds the
  characters of a separator that are still to be skipped.
\<close>

fun split_from :: "string \<Rightarrow> nat \<Rightarrow> string \<Rightarrow> string list" where
  "split_from sep k [] = [[]]"
| "split_from sep k (c # cs) =
     (if 0 < k then split_from sep (k - 1) cs
      else if startswith (c # cs) sep then [] # split_from sep (length sep - 1) cs
      else (case split_from sep 0 cs of
              [] \<Rightarrow> [[c]]
            | p # ps \<Rightarrow> (c # p) # ps))"

definition split_str :: "string \<Rightarrow> string \<Rightarrow> string list" where
  "split_str sep s = split_from sep 0 s"

definition german_half :: "string \<Rightarrow> string" where
  "german_half e = (case split_str '' / '' e of [] \<Rightarrow> [] | p # ps \<Rightarrow> p)"

definition english_half :: "string \<Rightarrow> string" where
  "english_half e = (case rev (split_str '' / '' e) of [] \<Rightarrow> [] | p # ps \<Rightarrow> p)"

section \<open>Example runs\<close>

text \<open>Concrete collaborators for the examples: every bracketed host is accepted, and the
  provider either fails or returns one fixed video.\<close>

definition any_host :: "string \<Rightarrow> bool" where
  "any_host h = True"

definition failing_fetch :: "string \<Rightarrow> fetched" where
  "failing_fetch url = FetchError ''Video unavailable''"

definition short_message :: "row \<Rightarrow> string list \<Rightarrow> cell \<Rightarrow> string \<Rightarrow> string" where
  "short_message r errors lang form_url = (if errors = [] then ''OK'' else form_url)"

definition failing_env :: env where
  "failing_env = \<lparr>host_ok = any_host, fetch = failing_fetch, create_message = short_message\<rparr>"

definition example_video :: metadata where
  "example_video = \<lparr>title = Some ''Some Song (Lyrics)'', description = Some [],
                     duration = Some 200, age_limit = Some 0, categories = Some [],
                     tags = Some [], channel = Some ''Music'', uploader = Some ''Music''\<rparr>"

definition no_description_video :: metadata where
  "no_description_video = example_video\<lparr>description := None\<rparr>"

definition no_tags_video :: metadata where
  "no_tags_video = example_video\<lparr>tags := None\<rparr>"

definition mv_video :: metadata where
  "mv_video = example_video\<lparr>title := Some ''Foo (MV)''\<rparr>"

definition official_mv_video :: metadata where
  "official_mv_video = example_video\<lparr>title := Some ''Foo - Bar Official MV''\<rparr>"

definition example_fetch :: "string \<Rightarrow> fetched" where
  "example_fetch url = Info example_video"

definition example_env :: env where
  "example_env = \<lparr>host_ok = any_host, fetch = example_fetch, create_message = short_message\<rparr>"

definition example_row :: row where
  "example_row =
     \<lparr>Email_Address = Str ''a@example.org'', Sprache_der_Regeln = Str ''Deutsch'',
      Bevorzugte_Kommunikation = Str ''Instagram'', Instagram_Name = Str ''@dancer'',
      WhatsApp_Number = Missing, Weitere_Kontaktmoeglichkeit = Missing,
      YT_URL = Str ''https://www.youtube.com/watch?v=abc'', Kuenstler = Str ''Some'',
      Songname = Str ''Song'', Start_Timestamp = Str ''0:10'', End_Timestamp = Str ''1:00'',
      Anmerkung = Missing,
      YT_URL_1 = Str ''https://youtu.be/x'', Kuenstler_1 = Str ''Foo'', Songname_1 = Str ''Bar'',
      Start_Timestamp_1 = Str ''0:50'', End_Timestamp_1 = Str ''0:10'',
      Anmerkung_1 = Str ''second''\<rparr>"

definition no_url_row :: row where
  "no_url_row =
     \<lparr>Email_Address = Str ''b@example.org'', Sprache_der_Regeln = Str ''English'',
      Bevorzugte_Kommunikation = Str ''WhatsApp'', Instagram_Name = Missing,
      WhatsApp_Number = Str ''0170 123'', Weitere_Kontaktmoeglichkeit = Missing,
      YT_URL = Missing, Kuenstler = Str ''Foo'', Songname = Str ''Bar'',
      Start_Timestamp = Missing, End_Timestamp = Missing, Anmerkung = Missing,
      YT_URL_1 = Missing, Kuenstler_1 = Missing, Songname_1 = Missing,
      Start_Timestamp_1 = Missing, End_Timestamp_1 = Missing, Anmerkung_1 = Missing\<rparr>"

definition inf_row :: row where
  "inf_row =
     \<lparr>Email_Address = Str ''c@example.org'', Sprache_der_Regeln = Str ''Deutsch'',
      Bevorzugte_Kommunikation = Str ''Instagram'', Instagram_Name = Str ''@dancer'',
      WhatsApp_Number = Missing, Weitere_Kontaktmoeglichkeit = Missing,
      YT_URL = Str ''https://youtu.be/x'', Kuenstler = Str ''Some'',
      Songname = Str ''Song'', Start_Timestamp = Str ''inf'', End_Timestamp = Str ''1:00'',
      Anmerkung = Missing,
      YT_URL_1 = Missing, Kuenstler_1 = Missing, Songname_1 = Missing,
      Start_Timestamp_1 = Missing, End_Timestamp_1 = Missing, Anmerkung_1 = Missing\<rparr>"

definition example_df :: "row list" where
  "example_df = [example_row, no_url_row]"

section \<open>Properties of the normalizer\<close>

lemma az09_cases:
  "c \<in> az09 \<Longrightarrow> lower_char c = c \<and> nfkd_ascii c = [c]"
  unfolding az09_def
  by (auto simp: lower_char_def nfkd_ascii_def code_def)

lemma az09_fixed:
  "set s \<subseteq> az09 \<Longrightarrow> filter (\<lambda>c. c \<in> az09) (concat (map nfkd_ascii (lower s))) = s"
proof (induction s)
  case Nil
  then show ?case by (simp add: lower_def)
next
  case (Cons c s)
  then have c: "c \<in> az09" and s: "set s \<subseteq> az09" by simp_all
  from az09_cases [OF c] Cons.IH [OF s] c show ?case
    by (simp add: lower_def)
qed

lemma normalize_text_az09: "set (normalize_text x) \<subseteq> az09"
  by (auto simp: normalize_text_def Let_def)

text \<open>
  C10: \<^verbatim>\<open>normalize_text\<close> returns only characters of \<^verbatim>\<open>[a-z0-9]\<close>, and applying it
  to its own result changes nothing.
\<close>

theorem normalize_text_idempotent:
  "set (normalize_text x) \<subseteq> set ''abcdefghijklmnopqrstuvwxyz0123456789''
   \<and> normalize_text (Str (normalize_text x)) = normalize_text x"
proof
  show "set (normalize_text x) \<subseteq> set ''abcdefghijklmnopqrstuvwxyz0123456789''"
    using normalize_text_az09 [of x] by (simp only: az09_def)
next
  have "normalize_text (Str s) = s" if "set s \<subseteq> az09" for s
    using az09_fixed [OF that] by (simp add: normalize_text_def)
  then show "normalize_text (Str (normalize_text x)) = normalize_text x"
    using normalize_text_az09 by blast
qed

section \<open>Evaluation of closed terms\<close>

lemma char_of_eq_iff: "char_of (n::nat) = c \<longleftrightarrow> n mod 256 = of_char c"
proof
  assume "char_of n = c"
  then have "of_char (char_of n) = (of_char c :: nat)" by simp
  then show "n mod 256 = of_char c" by simp
next
  assume "n mod 256 = of_char c"
  then have "char_of (n mod 256) = char_of (of_char c :: nat)" by simp
  then show "char_of n = c" by simp
qed

lemmas num_eval = strip_def strip_with_def ws_str_def ws_num_def code_def
  py_int_def py_int_float_def digitpart_def is_digit_def digit_val_def decimal_def signed_def
  mantissa_def exponent_def is_e_def lower_def lower_char_def trunc_double_def bit_length.simps
  Let_def char_of_eq_iff

section \<open>Properties of the timestamp parser\<close>

lemma parse_timestamp_examples:
  "parse_timestamp (Str ''1:30'') = Inr 90"
  "parse_timestamp (Str ''0:90:00'') = Inr 90"
  "parse_timestamp (Str ''1:30:00'') = Inr 90"
  "parse_timestamp (Str ''2:05:10'') = Inr 7510"
  "parse_timestamp (Str ''abc'') = Inr 0"
  "parse_timestamp (Str []) = Inr 0"
  "parse_timestamp Missing = Inr 0"
  by (simp_all add: parse_timestamp_def num_eval)

lemma parse_timestamp_three_components:
  assumes "\<not> isna ts" and "\<not> falsy ts"
    and "split_on CHR '':'' (strip (py_str ts)) = [p0, p1, p2]"
    and "py_int p0 = Some h" and "py_int p1 = Some m" and "py_int p2 = Some s"
  shows "parse_timestamp ts = Inr (if h < 10 \<and> s = 0 then h * 60 + m else h * 3600 + m * 60 + s)"
  using assms by (simp add: parse_timestamp_def)

lemma py_int_float_errors: "py_int_float s = Inl e \<Longrightarrow> e = ValueError \<or> e = OverflowError"
  by (auto simp: py_int_float_def Let_def split: prod.splits option.splits if_splits)

lemma parse_timestamp_errors: "parse_timestamp ts = Inl e \<Longrightarrow> e = OverflowError"
  by (auto simp: parse_timestamp_def Let_def
      split: if_splits list.splits option.splits sum.splits py_error.splits
      dest: py_int_float_errors)

text \<open>
  C3 (defect of the code): the examples and the heuristic hold
  (\<open>parse_timestamp_examples\<close>, \<open>parse_timestamp_three_components\<close>), but not every
  unparseable input yields 0. \<^verbatim>\<open>float("inf")\<close> is infinity, \<^verbatim>\<open>int\<close> of it raises
  OverflowError, and the \<^verbatim>\<open>except (ValueError, TypeError)\<close> clause lets it pass.
\<close>

theorem parse_timestamp_inf_raises:
  "parse_timestamp (Str ''inf'') = Inl OverflowError"
  by (simp add: parse_timestamp_def num_eval)

section \<open>Properties of the checks\<close>

lemma parse_0: "parse_timestamp (Str ''0'') = Inr 0"
  by (simp add: parse_timestamp_def num_eval del: One_nat_def)

lemma parse_10: "parse_timestamp (Str ''10'') = Inr 10"
  by (simp add: parse_timestamp_def num_eval del: One_nat_def)

lemma parse_50: "parse_timestamp (Str ''50'') = Inr 50"
  by (simp add: parse_timestamp_def num_eval del: One_nat_def)

lemma parse_90: "parse_timestamp (Str ''90'') = Inr 90"
  by (simp add: parse_timestamp_def num_eval del: One_nat_def)

lemma parse_91: "parse_timestamp (Str ''91'') = Inr 91"
  by (simp add: parse_timestamp_def num_eval del: One_nat_def)

text \<open>
  C4: the duration check takes the difference of the two parsed timestamps and fails
  exactly when it is at most 0 or more than 90: from 0 to 90 passes, from 0 to 91 and
  from 50 to 10 fail.
\<close>

theorem check_duration_bounds:
  assumes "parse_timestamp start_ts = Inr s" and "parse_timestamp end_ts = Inr e"
  shows "(check_duration start_ts end_ts = Inr Pass \<longleftrightarrow> 0 < e - s \<and> e - s \<le> 90)
       \<and> ((\<exists>msg. check_duration start_ts end_ts = Inr (Fail msg)) \<longleftrightarrow> e - s \<le> 0 \<or> 90 < e - s)
       \<and> check_duration (Str ''0'') (Str ''90'') = Inr Pass
       \<and> check_duration (Str ''0'') (Str ''91'') = Inr (Fail (section_too_long 91))
       \<and> check_duration (Str ''50'') (Str ''10'')
           = Inr (Fail (invalid_timestamps (Str ''50'') (Str ''10'')))"
proof -
  have general: "check_duration start_ts end_ts = Inr Pass \<longleftrightarrow> 0 < e - s \<and> e - s \<le> 90"
    "(\<exists>msg. check_duration start_ts end_ts = Inr (Fail msg)) \<longleftrightarrow> e - s \<le> 0 \<or> 90 < e - s"
    using assms by (auto simp: check_duration_def MAX_SONG_DURATION_SECONDS_def Let_def)
  have examples: "check_duration (Str ''0'') (Str ''90'') = Inr Pass"
    "check_duration (Str ''0'') (Str ''91'') = Inr (Fail (section_too_long 91))"
    "check_duration (Str ''50'') (Str ''10'') = Inr (Fail (invalid_timestamps (Str ''50'') (Str ''10'')))"
    by (simp_all add: check_duration_def MAX_SONG_DURATION_SECONDS_def parse_0 parse_10 parse_50
        parse_90 parse_91)
  from general examples show ?thesis by blast
qed

theorem check_duration_bounds_witness:
  "parse_timestamp (Str ''0:10'') = Inr 10 \<and> parse_timestamp (Str ''1:40'') = Inr 100
   \<and> check_duration (Str ''0:10'') (Str ''1:40'') = Inr Pass"
proof -
  have a: "parse_timestamp (Str ''0:10'') = Inr 10"
    by (simp add: parse_timestamp_def num_eval)
  have b: "parse_timestamp (Str ''1:40'') = Inr 100"
    by (simp add: parse_timestamp_def num_eval)
  from check_duration_bounds [OF a b] a b show ?thesis by simp
qed

lemma startswith_iff: "startswith s p \<longleftrightarrow> (\<exists>post. s = p @ post)"
  by (induction s p rule: startswith.induct) auto

lemma py_in_iff: "py_in sub s \<longleftrightarrow> (\<exists>pre post. s = pre @ sub @ post)"
proof (induction s)
  case Nil
  then show ?case by auto
next
  case (Cons c cs)
  show ?case
  proof
    assume "py_in sub (c # cs)"
    then consider "startswith (c # cs) sub" | "py_in sub cs" by auto
    then show "\<exists>pre post. c # cs = pre @ sub @ post"
    proof cases
      case 1
      then obtain post where "c # cs = sub @ post" by (auto simp: startswith_iff)
      then have "c # cs = [] @ sub @ post" by simp
      then show ?thesis by blast
    next
      case 2
      with Cons.IH obtain pre post where "cs = pre @ sub @ post" by auto
      then have "c # cs = (c # pre) @ sub @ post" by simp
      then show ?thesis by blast
    qed
  next
    assume "\<exists>pre post. c # cs = pre @ sub @ post"
    then obtain pre post where eq: "c # cs = pre @ sub @ post" by blast
    show "py_in sub (c # cs)"
    proof (cases pre)
      case Nil
      with eq have "startswith (c # cs) sub" by (auto simp: startswith_iff)
      then show ?thesis by simp
    next
      case (Cons a pre')
      with eq have "cs = pre' @ sub @ post" by simp
      with Cons.IH have "py_in sub cs" by blast
      then show ?thesis by simp
    qed
  qed
qed

lemma code_char_of: "n < 256 \<Longrightarrow> code (char_of n) = n"
  by (simp add: code_def)

lemma lower_char_idem: "lower_char (lower_char c) = lower_char c"
proof -
  have "code c < 256" by (simp add: code_def)
  then show ?thesis
    by (auto simp: lower_char_def Let_def code_char_of)
qed

lemma lower_idem: "lower (lower s) = lower s"
  by (simp add: lower_def lower_char_idem)

lemma find_None_list_ex: "(find P xs = None) = (\<not> list_ex P xs)"
  by (induction xs) auto

lemma check_is_lyric_video_negative_only:
  assumes "title v = Some t" and "description v = Some d"
  shows "((\<exists>msg. check_is_lyric_video (Some (Info v)) = Inr (Fail msg))
     \<longleftrightarrow> (\<exists>neg pre post.
            neg \<in> set [''official mv'', ''official music video'', ''dance practice'',
                        ''dance practice video'', ''choreography video'',
                        ''performance video'', ''m/v'', ''(mv)'', ''[mv]'']
          \<and> lower t = pre @ neg @ post))
   \<and> (check_is_lyric_video (Some (Info v)) = Inr Pass
     \<longleftrightarrow> \<not> (\<exists>neg pre post.
            neg \<in> set [''official mv'', ''official music video'', ''dance practice'',
                        ''dance practice video'', ''choreography video'',
                        ''performance video'', ''m/v'', ''(mv)'', ''[mv]'']
          \<and> lower t = pre @ neg @ post))
   \<and> check_is_lyric_video (Some (FetchError e)) = Inr (Fail could_not_fetch)"
proof -
  let ?P = "\<lambda>neg. py_in neg (lower t)"
  have ex: "list_ex ?P negative_indicators
      \<longleftrightarrow> (\<exists>neg pre post.
            neg \<in> set [''official mv'', ''official music video'', ''dance practice'',
                        ''dance practice video'', ''choreography video'',
                        ''performance video'', ''m/v'', ''(mv)'', ''[mv]'']
          \<and> lower t = pre @ neg @ post)"
    unfolding list_ex_iff py_in_iff negative_indicators_def by blast
  show ?thesis
  proof (cases "find ?P negative_indicators")
    case None
    then have "\<not> list_ex ?P negative_indicators" by (simp add: find_None_list_ex)
    with None ex assms show ?thesis by (simp add: lower_idem Let_def)
  next
    case (Some neg)
    then have "list_ex ?P negative_indicators"
      using find_None_list_ex [of ?P negative_indicators] by simp
    with Some ex assms show ?thesis by (simp add: lower_idem Let_def)
  qed
qed

lemma check_is_lyric_video_instances:
  "check_is_lyric_video (Some (Info mv_video)) = Inr (Fail (not_a_lyric_video ''(mv)''))"
  "check_is_lyric_video (Some (Info official_mv_video))
     = Inr (Fail (not_a_lyric_video ''official mv''))"
  "check_is_lyric_video (Some (Info example_video)) = Inr Pass"
  "check_is_lyric_video (Some (Info (example_video\<lparr>title := Some ''Foo - Bar''\<rparr>))) = Inr Pass"
  "check_is_lyric_video (Some (Info no_tags_video)) = Inr Pass"
  by code_simp+

text \<open>
  C5 (defect of the code): for a fetched record whose title and description are strings
  the check fails exactly when a negative indicator occurs in the lower-cased title
  (\<open>check_is_lyric_video_negative_only\<close>, \<open>check_is_lyric_video_instances\<close>), but it does
  not decide every fetched record. A record whose description is \<^verbatim>\<open>None\<close> and whose
  title holds no negative indicator is not accepted: \<^verbatim>\<open>.lower()\<close> on \<^verbatim>\<open>None\<close> raises
  AttributeError. Tags that are \<^verbatim>\<open>None\<close> are guarded and do pass.
\<close>

theorem check_is_lyric_video_none_description:
  "title no_description_video = Some ''Some Song (Lyrics)''
   \<and> description no_description_video = None
   \<and> check_is_lyric_video (Some (Info no_description_video)) = Inl AttributeError
   \<and> tags no_tags_video = None
   \<and> check_is_lyric_video (Some (Info no_tags_video)) = Inr Pass"
  by code_simp

text \<open>
  C6: on a fetch failure the age-restriction check passes, and the artist/title check
  and the lyric-video check fail with the could-not-fetch reason.
\<close>

theorem fetch_failure_open_and_closed:
  "check_age_restriction (Some (FetchError e)) = Pass
   \<and> check_artist_title_match (Some (FetchError e)) artist song_title
       = Fail ''Video konnte nicht abgerufen werden / Could not fetch video''
   \<and> check_is_lyric_video (Some (FetchError e))
       = Inr (Fail ''Video konnte nicht abgerufen werden / Could not fetch video'')"
  by (simp add: could_not_fetch_def)

section \<open>Properties of the rule engine\<close>

lemma clean_youtube_url_nonempty:
  "clean_youtube_url h url = Inr (Some clean_url) \<Longrightarrow> clean_url \<noteq> []"
  by (auto simp: clean_youtube_url_def Let_def split: if_splits sum.splits)

text \<open>
  C1, as the code implements it: when the URL is present and the metadata fetch fails,
  \<^verbatim>\<open>validate_song\<close> returns at once with exactly one reason, the YouTube error with
  the provider's message; none of the five checks contributes a reason.
\<close>

theorem validate_song_fetch_failure:
  assumes "clean_youtube_url (host_ok ev) url = Inr (Some clean_url)"
    and "fetch ev clean_url = FetchError err"
  shows "validate_song ev url artist song_title start_ts end_ts blocked_songs
         = Inr ([youtube_error err], Some clean_url)"
  using assms clean_youtube_url_nonempty [OF assms(1)]
  by (simp add: validate_song_def get_youtube_info_def)

lemma clean_example_url:
  "clean_youtube_url any_host (Str ''https://youtu.be/x'') = Inr (Some ''https://youtu.be/x'')"
  by code_simp

theorem validate_song_fetch_failure_witness:
  "clean_youtube_url (host_ok failing_env) (Str ''https://youtu.be/x'')
     = Inr (Some ''https://youtu.be/x'')
   \<and> fetch failing_env ''https://youtu.be/x'' = FetchError ''Video unavailable''
   \<and> validate_song failing_env (Str ''https://youtu.be/x'') (Str ''A'') (Str ''T'')
        (Str ''0:10'') (Str ''0:50'') {}
     = Inr ([youtube_error ''Video unavailable''], Some ''https://youtu.be/x'')"
proof -
  have a: "clean_youtube_url (host_ok failing_env) (Str ''https://youtu.be/x'')
           = Inr (Some ''https://youtu.be/x'')"
    by (simp add: failing_env_def clean_example_url)
  have b: "fetch failing_env ''https://youtu.be/x'' = FetchError ''Video unavailable''"
    by (simp add: failing_env_def failing_fetch_def)
  from validate_song_fetch_failure [OF a b] a b show ?thesis by simp
qed

text \<open>
  The claim C1 as stated fails: with a failing fetch and the reversed range 0:50 to
  0:10 the verdict is the single YouTube error; it holds neither the could-not-fetch
  reason of checks 1 and 2 nor the reason that check 3 gives for this range.
\<close>

theorem validate_song_fetch_failure_counterexample:
  "validate_song failing_env (Str ''https://youtu.be/x'') (Str ''A'') (Str ''T'')
     (Str ''0:50'') (Str ''0:10'') {}
     = Inr ([''YouTube-Fehler: Video unavailable / YouTube error: Video unavailable''],
            Some ''https://youtu.be/x'')
   \<and> could_not_fetch
       \<notin> set [''YouTube-Fehler: Video unavailable / YouTube error: Video unavailable'']
   \<and> check_duration (Str ''0:50'') (Str ''0:10'')
       = Inr (Fail (invalid_timestamps (Str ''0:50'') (Str ''0:10'')))
   \<and> invalid_timestamps (Str ''0:50'') (Str ''0:10'')
       \<notin> set [''YouTube-Fehler: Video unavailable / YouTube error: Video unavailable'']"
proof -
  have v: "validate_song failing_env (Str ''https://youtu.be/x'') (Str ''A'') (Str ''T'')
     (Str ''0:50'') (Str ''0:10'') {}
     = Inr ([''YouTube-Fehler: Video unavailable / YouTube error: Video unavailable''],
            Some ''https://youtu.be/x'')"
    by (simp add: validate_song_def failing_env_def failing_fetch_def clean_example_url
        get_youtube_info_def youtube_error_def)
  have d: "check_duration (Str ''0:50'') (Str ''0:10'')
       = Inr (Fail (invalid_timestamps (Str ''0:50'') (Str ''0:10'')))"
    by (simp add: check_duration_def parse_timestamp_def num_eval)
  have n1: "could_not_fetch
       \<notin> set [''YouTube-Fehler: Video unavailable / YouTube error: Video unavailable'']"
    by (simp add: could_not_fetch_def)
  have n2: "invalid_timestamps (Str ''0:50'') (Str ''0:10'')
       \<notin> set [''YouTube-Fehler: Video unavailable / YouTube error: Video unavailable'']"
    by (simp add: invalid_timestamps_def)
  from v d n1 n2 show ?thesis by blast
qed

lemma clean_watch_url:
  "clean_youtube_url any_host (Str ''https://www.youtube.com/watch?v=abc'')
   = Inr (Some ''https://www.youtube.com/watch?v=abc'')"
  by code_simp

lemma both_absent_one_reason:
  assumes "normalize_text artist \<noteq> []" and "normalize_text song_title \<noteq> []"
    and "\<not> py_in (normalize_text artist) (normalize_text (text_cell (title v)))"
    and "\<not> py_in (normalize_text song_title) (normalize_text (text_cell (title v)))"
  shows "reasons (check_artist_title_match (Some (Info v)) artist song_title)
         = [artist_not_found artist @ ''; '' @ title_not_found song_title]"
  using assms by (simp add: Let_def)

lemma merged_reason_halves:
  "german_half (artist_not_found (Str ''Foo'') @ ''; '' @ title_not_found (Str ''Bar''))
     = ''K'' @ [CHR 0xFC] @ ''nstler '' @ quoted ''Foo'' @ '' nicht im YouTube-Titel gefunden''"
  "english_half (artist_not_found (Str ''Foo'') @ ''; '' @ title_not_found (Str ''Bar''))
     = ''Song title '' @ quoted ''Bar'' @ '' not found in YouTube title''"
  by code_simp+

text \<open>
  C7 (defect of the code): artist and title are tested independently, but the two
  messages are joined by \<^verbatim>\<open>"; "\<close> into one string, and \<^verbatim>\<open>validate_song\<close> appends
  that one string: a song whose artist and title are both absent from the video title
  gets a verdict of one reason, not two. The message rendering then splits that reason
  at \<^verbatim>\<open>" / "\<close> and shows only the artist failure in German and only the title failure
  in English (\<open>merged_reason_halves\<close>).
\<close>

theorem validate_song_merges_artist_and_title:
  "validate_song example_env (Str ''https://www.youtube.com/watch?v=abc'') (Str ''Foo'')
     (Str ''Bar'') (Str ''0:10'') (Str ''1:00'') {}
   = Inr ([artist_not_found (Str ''Foo'') @ ''; '' @ title_not_found (Str ''Bar'')],
          Some ''https://www.youtube.com/watch?v=abc'')
   \<and> length [artist_not_found (Str ''Foo'') @ ''; '' @ title_not_found (Str ''Bar'')] = 1"
proof -
  have d: "check_duration (Str ''0:10'') (Str ''1:00'') = Inr Pass"
    by (simp add: check_duration_def parse_timestamp_def num_eval MAX_SONG_DURATION_SECONDS_def)
  have m: "check_artist_title_match (Some (Info example_video)) (Str ''Foo'') (Str ''Bar'')
           = Fail (artist_not_found (Str ''Foo'') @ ''; '' @ title_not_found (Str ''Bar''))"
    by code_simp
  have l: "check_is_lyric_video (Some (Info example_video)) = Inr Pass"
    by code_simp
  have a: "check_age_restriction (Some (Info example_video)) = Pass"
    by (simp add: example_video_def)
  have b: "check_blocked_song (Str ''Foo'') (Str ''Bar'') {} = Pass"
    by (simp add: check_blocked_song_def)
  show ?thesis
    by (simp add: validate_song_def example_env_def example_fetch_def clean_watch_url
        get_youtube_info_def d m l a b
        del: check_artist_title_match.simps check_is_lyric_video.simps
          check_age_restriction.simps)
qed

section \<open>Properties of the URL canonicalization\<close>

text \<open>
  C8 (defect of the code): \<^verbatim>\<open>clean_youtube_url\<close> is not idempotent. For a URL without
  a scheme, \<^verbatim>\<open>urlparse\<close> finds an empty scheme and an empty network location, and the
  result is rebuilt as \<^verbatim>\<open>"://" + path\<close>; cleaning that result puts another
  \<^verbatim>\<open>"://"\<close> in front.
\<close>

theorem clean_youtube_url_not_idempotent:
  "clean_youtube_url any_host (Str ''www.youtube.com/watch?v=dQw4w9WgXcQ'')
     = Inr (Some ''://www.youtube.com/watch?v=dQw4w9WgXcQ'')
   \<and> clean_youtube_url any_host (Str ''://www.youtube.com/watch?v=dQw4w9WgXcQ'')
     = Inr (Some ''://://www.youtube.com/watch?v=dQw4w9WgXcQ'')"
  by code_simp

section \<open>Properties of the report assembler\<close>
lemma fills_write_from [simp]: "fills (write_from ws r c vs) = fills ws"
  by (induction vs arbitrary: ws c) (simp_all add: set_value_def)

lemma cells_write_from:
  "cells (write_from ws r c vs) (r', c') =
     (if r' = r \<and> c \<le> c' \<and> c' < c + length vs then Some (vs ! (c' - c)) else cells ws (r', c'))"
proof (induction vs arbitrary: ws c)
  case Nil
  then show ?case by auto
next
  case (Cons v vs)
  have "cells (write_from ws r c (v # vs)) (r', c')
        = cells (write_from (set_value ws r c v) r (Suc c) vs) (r', c')" by simp
  also have "\<dots> = (if r' = r \<and> Suc c \<le> c' \<and> c' < Suc c + length vs
                    then Some (vs ! (c' - Suc c)) else cells (set_value ws r c v) (r', c'))"
    by (rule Cons.IH)
  also have "\<dots> = (if r' = r \<and> c \<le> c' \<and> c' < c + length (v # vs)
                    then Some ((v # vs) ! (c' - c)) else cells ws (r', c'))"
    by (auto simp: set_value_def nth_Cons' Suc_diff_le)
  finally show ?case .
qed

lemma cells_fill_cols [simp]: "cells (fill_cols ws r cs f) = cells ws"
  by (induction cs arbitrary: ws) (simp_all add: set_fill_def)

lemma fills_fill_cols:
  "fills (fill_cols ws r cs f) (r', c') =
     (if r' = r \<and> c' \<in> set cs then Some f else fills ws (r', c'))"
  by (induction cs arbitrary: ws) (auto simp: set_fill_def)

lemma cells_write_headers:
  "cells (write_headers empty_sheet hs) (r, c) =
     (if r = 1 \<and> 1 \<le> c \<and> c \<le> length hs then Some (XStr (hs ! (c - 1))) else None)"
  by (auto simp: write_headers_def cells_write_from empty_sheet_def)

lemma length_message_values [simp]: "length (message_values i res) = 7"
  by (simp add: message_values_def)

lemma cells_message_row:
  "cells (message_row ws i res) (r, c) =
     (if r = i + 2 \<and> 1 \<le> c \<and> c \<le> 7 then Some (message_values i res ! (c - 1))
      else cells ws (r, c))"
  by (auto simp: message_row_def Let_def cells_write_from)

lemma cells_message_rows:
  "cells (message_rows ws i rs) (r, c) =
     (if i + 2 \<le> r \<and> r < i + 2 + length rs \<and> 1 \<le> c \<and> c \<le> 7
      then Some (message_values (r - 2) (rs ! (r - 2 - i)) ! (c - 1))
      else cells ws (r, c))"
proof (induction rs arbitrary: ws i)
  case Nil
  then show ?case by auto
next
  case (Cons res rs)
  have "cells (message_rows ws i (res # rs)) (r, c)
        = cells (message_rows (message_row ws i res) (Suc i) rs) (r, c)" by simp
  also have "\<dots> = (if Suc i + 2 \<le> r \<and> r < Suc i + 2 + length rs \<and> 1 \<le> c \<and> c \<le> 7
      then Some (message_values (r - 2) (rs ! (r - 2 - Suc i)) ! (c - 1))
      else cells (message_row ws i res) (r, c))"
    by (rule Cons.IH)
  also have "\<dots> = (if i + 2 \<le> r \<and> r < i + 2 + length (res # rs) \<and> 1 \<le> c \<and> c \<le> 7
      then Some (message_values (r - 2) ((res # rs) ! (r - 2 - i)) ! (c - 1))
      else cells ws (r, c))"
  proof (cases "r = i + 2")
    case True
    then show ?thesis by (simp add: cells_message_row)
  next
    case False
    then show ?thesis by (auto simp: cells_message_row nth_Cons')
  qed
  finally show ?case .
qed
lemma song_wish_fields:
  assumes "song_wish ev b f idx r = Inr res"
  shows "validate_song ev (YT_URL r) (Kuenstler r) (Songname r) (Start_Timestamp r)
           (End_Timestamp r) b = Inr (errors1 res, url1 res)"
    and "(if \<not> isna (YT_URL_1 r) \<and> \<not> falsy (YT_URL_1 r)
          then validate_song ev (YT_URL_1 r) (Kuenstler_1 r) (Songname_1 r)
                 (Start_Timestamp_1 r) (End_Timestamp_1 r) b
          else Inr ([], None)) = Inr (errors2 res, url2 res)"
    and "artist1 res = Kuenstler r" and "title1 res = Songname r"
    and "start1 res = Start_Timestamp r" and "end1 res = End_Timestamp r"
    and "note1 res = Anmerkung r"
    and "artist2 res = Kuenstler_1 r" and "title2 res = Songname_1 r"
    and "start2 res = Start_Timestamp_1 r" and "end2 res = End_Timestamp_1 r"
    and "note2 res = Anmerkung_1 r"
    and "email res = Email_Address r" and "contact_url res = create_contact_url r"
    and "message res = create_message ev r (errors1 res) (Sprache_der_Regeln r) f"
    and "row_index res = idx"
  using assms
  by (auto simp: song_wish_def split: sum.splits prod.splits if_splits)

lemma song_wishes_nth:
  "song_wishes ev b f idx rows = Inr results \<Longrightarrow>
     length results = length rows
     \<and> (\<forall>i<length rows. song_wish ev b f (idx + i) (rows ! i) = Inr (results ! i))"
proof (induction rows arbitrary: idx results)
  case Nil
  then show ?case by simp
next
  case (Cons r rows)
  from Cons.prems obtain res ress where
    r: "song_wish ev b f idx r = Inr res" and
    rs: "song_wishes ev b f (Suc idx) rows = Inr ress" and
    eq: "results = res # ress"
    by (auto split: sum.splits)
  from Cons.IH [OF rs] have len: "length ress = length rows"
    and nth: "\<And>i. i < length rows \<Longrightarrow> song_wish ev b f (Suc idx + i) (rows ! i) = Inr (ress ! i)"
    by simp_all
  show ?case
  proof (intro conjI allI impI)
    show "length results = length (r # rows)" using len eq by simp
  next
    fix i assume "i < length (r # rows)"
    then show "song_wish ev b f (idx + i) ((r # rows) ! i) = Inr (results ! i)"
      using r nth [of "i - 1"] eq by (cases i) simp_all
  qed
qed

lemma process_songwishes_Inr:
  assumes "process_songwishes ev b f df = Inr wb"
  obtains rows results ws1 rn sc rn2 sc2 where
    "submissions df = Inr rows"
    "song_wishes ev b f 0 rows = Inr results"
    "Messages wb = message_rows (write_headers empty_sheet headers) 0
                     (take FIRST_GUARANTEED_COUNT results)"
    "song_rows first_song results (write_headers empty_sheet songlist_headers, 2, 1)
       = Inr (ws1, rn, sc)"
    "song_rows second_song results (ws1, rn, sc) = Inr (Songlist wb, rn2, sc2)"
  using assms
  by (auto simp: process_songwishes_def Let_def split: sum.splits prod.splits)

lemma data_rows_message_rows:
  "data_rows (message_rows (write_headers empty_sheet headers) 0 rs) = {2..<2 + length rs}"
proof -
  have "(\<exists>c. cells (message_rows (write_headers empty_sheet headers) 0 rs) (r, c) \<noteq> None)
        \<longleftrightarrow> r < 2 + length rs" if "2 \<le> r" for r
  proof
    assume "\<exists>c. cells (message_rows (write_headers empty_sheet headers) 0 rs) (r, c) \<noteq> None"
    then show "r < 2 + length rs"
      using that by (auto simp: cells_message_rows cells_write_headers split: if_splits)
  next
    assume "r < 2 + length rs"
    then have "cells (message_rows (write_headers empty_sheet headers) 0 rs) (r, 1) \<noteq> None"
      using that by (simp add: cells_message_rows)
    then show "\<exists>c. cells (message_rows (write_headers empty_sheet headers) 0 rs) (r, c) \<noteq> None"
      by blast
  qed
  then have iff: "\<And>r. 2 \<le> r \<Longrightarrow>
      (\<exists>c. cells (message_rows (write_headers empty_sheet headers) 0 rs) (r, c) \<noteq> None)
        \<longleftrightarrow> r < 2 + length rs" .
  show ?thesis
  proof (rule set_eqI)
    fix r
    show "r \<in> data_rows (message_rows (write_headers empty_sheet headers) 0 rs)
          \<longleftrightarrow> r \<in> {2..<2 + length rs}"
      using iff [of r] by (cases "2 \<le> r") (simp_all add: data_rows_def)
  qed
qed

lemma message_table_rows:
  assumes "submissions df = Inr rows"
    and "process_songwishes ev blocked_songs form_url df = Inr wb"
  shows "data_rows (Messages wb) = {2..<2 + min (length rows) 50}
       \<and> card (data_rows (Messages wb)) = min (length rows) 50
       \<and> (\<forall>i<min (length rows) 50.
            cells (Messages wb) (i + 2, 1) = Some (XInt (int i + 1))
          \<and> cells (Messages wb) (i + 2, 2) = Some (XStr (create_contact_url (rows ! i)))
          \<and> cells (Messages wb) (i + 2, 5) = Some (XCell (Kuenstler (rows ! i)))
          \<and> cells (Messages wb) (i + 2, 6) = Some (XCell (Songname (rows ! i))))"
proof -
  from assms(2) obtain rows' results where
    rows': "submissions df = Inr rows'" and
    results: "song_wishes ev blocked_songs form_url 0 rows' = Inr results" and
    msgs: "Messages wb = message_rows (write_headers empty_sheet headers) 0
                     (take FIRST_GUARANTEED_COUNT results)"
    by (rule process_songwishes_Inr)
  from rows' assms(1) have [simp]: "rows' = rows" by simp
  from song_wishes_nth [OF results] have len: "length results = length rows"
    and nth: "\<And>i. i < length rows \<Longrightarrow> song_wish ev blocked_songs form_url i (rows ! i) = Inr (results ! i)"
    by simp_all
  let ?rs = "take FIRST_GUARANTEED_COUNT results"
  have l: "length ?rs = min (length rows) 50"
    by (simp add: len FIRST_GUARANTEED_COUNT_def min.commute)
  have rows_eq: "data_rows (Messages wb) = {2..<2 + min (length rows) 50}"
    by (simp add: msgs data_rows_message_rows l del: length_take)
  have "cells (Messages wb) (i + 2, 1) = Some (XInt (int i + 1))
      \<and> cells (Messages wb) (i + 2, 2) = Some (XStr (create_contact_url (rows ! i)))
      \<and> cells (Messages wb) (i + 2, 5) = Some (XCell (Kuenstler (rows ! i)))
      \<and> cells (Messages wb) (i + 2, 6) = Some (XCell (Songname (rows ! i)))"
    if i: "i < min (length rows) 50" for i
  proof -
    from i have i1: "i < length rows" and i2: "i < FIRST_GUARANTEED_COUNT"
      by (simp_all add: FIRST_GUARANTEED_COUNT_def)
    from i l have il: "i < length ?rs" by simp
    have t: "?rs ! i = results ! i" using i2 by simp
    note f = song_wish_fields [OF nth [OF i1]]
    have c: "cells (Messages wb) (i + 2, c) = Some (message_values i (results ! i) ! (c - 1))"
      if "1 \<le> c" "c \<le> 7" for c
      using that il t by (simp add: msgs cells_message_rows del: length_take nth_take)
    show ?thesis
      using c [of 1] c [of 2] c [of 5] c [of 6]
      by (simp add: message_values_def f)
  qed
  with rows_eq show ?thesis by simp
qed

lemma parse_0_10: "parse_timestamp (Str ''0:10'') = Inr 10"
  by (simp add: parse_timestamp_def num_eval)
lemma parse_0_50: "parse_timestamp (Str ''0:50'') = Inr 50"
  by (simp add: parse_timestamp_def num_eval)
lemma parse_1_00: "parse_timestamp (Str ''1:00'') = Inr 60"
  by (simp add: parse_timestamp_def num_eval)

lemma example_first_song:
  "validate_song example_env (Str ''https://www.youtube.com/watch?v=abc'') (Str ''Some'')
     (Str ''Song'') (Str ''0:10'') (Str ''1:00'') {}
   = Inr ([], Some ''https://www.youtube.com/watch?v=abc'')"
proof -
  have d: "check_duration (Str ''0:10'') (Str ''1:00'') = Inr Pass"
    by (simp add: check_duration_def parse_0_10 parse_1_00 MAX_SONG_DURATION_SECONDS_def)
  have m: "check_artist_title_match (Some (Info example_video)) (Str ''Some'') (Str ''Song'') = Pass"
    by code_simp
  have l: "check_is_lyric_video (Some (Info example_video)) = Inr Pass"
    by code_simp
  have a: "check_age_restriction (Some (Info example_video)) = Pass"
    by (simp add: example_video_def)
  have b: "check_blocked_song (Str ''Some'') (Str ''Song'') {} = Pass"
    by (simp add: check_blocked_song_def)
  show ?thesis
    by (simp add: validate_song_def example_env_def example_fetch_def clean_watch_url
        get_youtube_info_def d m l a b
        del: check_artist_title_match.simps check_is_lyric_video.simps
          check_age_restriction.simps)
qed

lemma example_second_song:
  "validate_song example_env (Str ''https://youtu.be/x'') (Str ''Foo'')
     (Str ''Bar'') (Str ''0:50'') (Str ''0:10'') {}
   = Inr ([artist_not_found (Str ''Foo'') @ ''; '' @ title_not_found (Str ''Bar''),
           invalid_timestamps (Str ''0:50'') (Str ''0:10'')],
          Some ''https://youtu.be/x'')"
proof -
  have d: "check_duration (Str ''0:50'') (Str ''0:10'')
           = Inr (Fail (invalid_timestamps (Str ''0:50'') (Str ''0:10'')))"
    by (simp add: check_duration_def parse_0_10 parse_0_50 MAX_SONG_DURATION_SECONDS_def)
  have m: "check_artist_title_match (Some (Info example_video)) (Str ''Foo'') (Str ''Bar'')
           = Fail (artist_not_found (Str ''Foo'') @ ''; '' @ title_not_found (Str ''Bar''))"
    by code_simp
  have l: "check_is_lyric_video (Some (Info example_video)) = Inr Pass"
    by code_simp
  have a: "check_age_restriction (Some (Info example_video)) = Pass"
    by (simp add: example_video_def)
  have b: "check_blocked_song (Str ''Foo'') (Str ''Bar'') {} = Pass"
    by (simp add: check_blocked_song_def)
  show ?thesis
    by (simp add: validate_song_def example_env_def example_fetch_def clean_example_url
        get_youtube_info_def d m l a b
        del: check_artist_title_match.simps check_is_lyric_video.simps
          check_age_restriction.simps)
qed

lemma example_no_url:
  "validate_song ev Missing artist song_title start_ts end_ts blocked_songs = Inr ([no_url], None)"
  by (simp add: validate_song_def clean_youtube_url_def)

lemma example_submissions: "submissions example_df = Inr example_df"
  by (simp add: submissions_def example_df_def example_row_def)

lemma example_run:
  "\<exists>wb. process_songwishes example_env {} ''https://forms.gle/x'' example_df = Inr wb"
  by (simp add: process_songwishes_def example_submissions Let_def,
      simp add: example_df_def song_wish_def example_row_def no_url_row_def
        example_first_song example_second_song example_no_url first_song_def second_song_def
        parse_0_10 parse_0_50 parse_1_00
        del: write_from.simps fill_cols.simps)

lemma message_table_rows_witness:
  "submissions example_df = Inr example_df
   \<and> (case process_songwishes example_env {} ''https://forms.gle/x'' example_df of
        Inl e \<Rightarrow> False
      | Inr wb \<Rightarrow> data_rows (Messages wb) = {2..<4}
                 \<and> cells (Messages wb) (3, 6) = Some (XCell (Str ''Bar'')))"
proof -
  from example_run obtain wb where
    wb: "process_songwishes example_env {} ''https://forms.gle/x'' example_df = Inr wb" ..
  from message_table_rows [OF example_submissions wb]
  have "data_rows (Messages wb) = {2..<2 + min (length example_df) 50}"
    and "\<forall>i<min (length example_df) 50.
           cells (Messages wb) (i + 2, 6) = Some (XCell (Songname (example_df ! i)))"
    by simp_all
  then have d: "data_rows (Messages wb) = {2..<4}"
    and "cells (Messages wb) (1 + 2, 6) = Some (XCell (Songname (example_df ! 1)))"
    by (simp_all add: example_df_def)
  then have c: "cells (Messages wb) (3, 6) = Some (XCell (Str ''Bar''))"
    by (simp add: example_df_def no_url_row_def numeral_3_eq_3)
  show ?thesis
    by (simp add: wb example_submissions d c)
qed

lemma length_song_values [simp]:
  "length (song_values url artist song_title requester a b n note errors) = 14"
  by (simp add: song_values_def)

lemma cells_song_row:
  "length values = 14 \<Longrightarrow>
   cells (song_row ws row_num values errors) (r, c) =
     (if r = row_num \<and> 1 \<le> c \<and> c \<le> 14 then Some (values ! (c - 1)) else cells ws (r, c))"
  by (auto simp: song_row_def Let_def cells_write_from)

lemma fills_song_row:
  "fills (song_row ws row_num values errors) (r, c) =
     (if r = row_num \<and> 1 \<le> c \<and> c \<le> 14 \<and> errors \<noteq> [] then Some error_fill
      else fills ws (r, c))"
  by (auto simp: song_row_def Let_def fills_fill_cols)

lemma song_rows_step_skip:
  "\<not> has_url sel res \<Longrightarrow>
   song_rows sel (res # rest) (ws, rn, sc) = song_rows sel rest (ws, rn, sc)"
  by (auto simp: has_url_def split: prod.splits option.splits)

lemma song_rows_step_write:
  assumes "has_url sel res" and "song_rows sel (res # rest) (ws, rn, sc) = Inr st"
  shows "length (song_values_of sel res sc) = 14
       \<and> song_rows sel rest
           (song_row ws rn (song_values_of sel res sc) (song_errors sel res), rn + 1, sc + 1)
         = Inr st"
  using assms
  by (auto simp: has_url_def song_values_of_def song_errors_def
      split: prod.splits option.splits sum.splits if_splits)

lemma song_rows_result:
  "song_rows sel rs (ws, rn, sc) = Inr (ws', rn', sc') \<Longrightarrow>
     rn' = rn + length (filter (has_url sel) rs)
   \<and> sc' = sc + length (filter (has_url sel) rs)
   \<and> (\<forall>r c. cells ws' (r, c) =
         (if rn \<le> r \<and> r < rn' \<and> 1 \<le> c \<and> c \<le> 14
          then Some (song_values_of sel (filter (has_url sel) rs ! (r - rn)) (sc + (r - rn))
                       ! (c - 1))
          else cells ws (r, c)))
   \<and> (\<forall>r c. fills ws' (r, c) =
         (if rn \<le> r \<and> r < rn' \<and> 1 \<le> c \<and> c \<le> 14
             \<and> song_errors sel (filter (has_url sel) rs ! (r - rn)) \<noteq> []
          then Some error_fill else fills ws (r, c)))"
proof (induction rs arbitrary: ws rn sc)
  case Nil
  then show ?case by auto
next
  case (Cons res rest)
  show ?case
  proof (cases "has_url sel res")
    case False
    from Cons.prems have "song_rows sel rest (ws, rn, sc) = Inr (ws', rn', sc')"
      unfolding song_rows_step_skip [OF False] .
    from Cons.IH [OF this] False show ?thesis by simp
  next
    case True
    let ?vs = "song_values_of sel res sc"
    let ?ws = "song_row ws rn ?vs (song_errors sel res)"
    from song_rows_step_write [OF True Cons.prems]
    have len: "length ?vs = 14"
      and run: "song_rows sel rest (?ws, rn + 1, sc + 1) = Inr (ws', rn', sc')"
      by simp_all
    let ?P = "filter (has_url sel) rest"
    from Cons.IH [OF run]
    have rn': "rn' = rn + 1 + length ?P" and sc': "sc' = sc + 1 + length ?P"
      and cells: "\<And>r c. cells ws' (r, c) =
         (if rn + 1 \<le> r \<and> r < rn' \<and> 1 \<le> c \<and> c \<le> 14
          then Some (song_values_of sel (?P ! (r - (rn + 1))) (sc + 1 + (r - (rn + 1))) ! (c - 1))
          else cells ?ws (r, c))"
      and fills: "\<And>r c. fills ws' (r, c) =
         (if rn + 1 \<le> r \<and> r < rn' \<and> 1 \<le> c \<and> c \<le> 14
             \<and> song_errors sel (?P ! (r - (rn + 1))) \<noteq> []
          then Some error_fill else fills ?ws (r, c))"
      by simp_all
    have P: "filter (has_url sel) (res # rest) = res # ?P" using True by simp
    have c: "cells ws' (r, c) =
         (if rn \<le> r \<and> r < rn' \<and> 1 \<le> c \<and> c \<le> 14
          then Some (song_values_of sel ((res # ?P) ! (r - rn)) (sc + (r - rn)) ! (c - 1))
          else cells ws (r, c))" for r c
    proof (cases "r = rn")
      case True
      then show ?thesis using rn' by (simp add: cells cells_song_row [OF len])
    next
      case False
      show ?thesis
      proof (cases "rn < r")
        case True
        define d where "d = r - (rn + 1)"
        with True have d: "r = rn + 1 + d" by simp
        show ?thesis unfolding d by (simp add: cells cells_song_row [OF len] rn')
      next
        case below: False
        with False have "r < rn" by simp
        then show ?thesis by (simp add: cells cells_song_row [OF len])
      qed
    qed
    have f: "fills ws' (r, c) =
         (if rn \<le> r \<and> r < rn' \<and> 1 \<le> c \<and> c \<le> 14
             \<and> song_errors sel ((res # ?P) ! (r - rn)) \<noteq> []
          then Some error_fill else fills ws (r, c))" for r c
    proof (cases "r = rn")
      case True
      then show ?thesis using rn' by (simp add: fills fills_song_row)
    next
      case False
      show ?thesis
      proof (cases "rn < r")
        case True
        define d where "d = r - (rn + 1)"
        with True have d: "r = rn + 1 + d" by simp
        show ?thesis unfolding d by (simp add: fills fills_song_row rn')
      next
        case below: False
        with False have "r < rn" by simp
        then show ?thesis by (simp add: fills fills_song_row)
      qed
    qed
    show ?thesis
      unfolding P using rn' sc' c f by simp
  qed
qed

lemma length_song_values_of:
  "length (song_values_of sel res n) = length (song_values_of sel res m)"
  by (simp add: song_values_of_def split: prod.splits option.splits sum.splits)

lemma song_rows_parsed:
  "song_rows sel rs (ws, rn, sc) = Inr st \<Longrightarrow> res \<in> set (filter (has_url sel) rs) \<Longrightarrow>
     length (song_values_of sel res n) = 14"
proof (induction rs arbitrary: ws rn sc)
  case Nil
  then show ?case by simp
next
  case (Cons r rest)
  show ?case
  proof (cases "has_url sel r")
    case False
    from Cons.prems(1) have "song_rows sel rest (ws, rn, sc) = Inr st"
      unfolding song_rows_step_skip [OF False] .
    from Cons.IH [OF this] Cons.prems(2) False show ?thesis by simp
  next
    case True
    from song_rows_step_write [OF True Cons.prems(1)]
    have len: "length (song_values_of sel r sc) = 14"
      and run: "song_rows sel rest
           (song_row ws rn (song_values_of sel r sc) (song_errors sel r), rn + 1, sc + 1) = Inr st"
      by simp_all
    from Cons.prems(2) True consider "res = r" | "res \<in> set (filter (has_url sel) rest)"
      by auto
    then show ?thesis
    proof cases
      case 1
      with len length_song_values_of [of sel r n sc] show ?thesis by simp
    next
      case 2
      from Cons.IH [OF run 2] show ?thesis .
    qed
  qed
qed

lemma song_values_of_first:
  assumes "length (song_values_of first_song res n) = 14"
  shows "\<exists>u a b. url1 res = Some u \<and> parse_timestamp (start1 res) = Inr a
           \<and> parse_timestamp (end1 res) = Inr b
           \<and> song_values_of first_song res n
               = song_values u (artist1 res) (title1 res) (email res) a b n (note1 res)
                   (errors1 res)"
  using assms
  by (auto simp: song_values_of_def first_song_def split: option.splits sum.splits)

lemma song_values_of_second:
  assumes "length (song_values_of second_song res n) = 14"
  shows "\<exists>u a b. url2 res = Some u \<and> parse_timestamp (start2 res) = Inr a
           \<and> parse_timestamp (end2 res) = Inr b
           \<and> song_values_of second_song res n
               = song_values u (artist2 res) (title2 res) (email res) a b n (note2 res)
                   (errors2 res)"
  using assms
  by (auto simp: song_values_of_def second_song_def split: option.splits sum.splits)

lemma validate_song_url:
  "validate_song ev url artist song_title start_ts end_ts b = Inr (errs, cu) \<Longrightarrow>
     clean_youtube_url (host_ok ev) url = Inr cu \<and> cu \<noteq> Some []"
  by (auto simp: validate_song_def Let_def
      split: sum.splits option.splits if_splits fetched.splits
      dest: clean_youtube_url_nonempty)

lemma song_wish_urls:
  assumes "song_wish ev b f idx r = Inr res"
  shows "clean_youtube_url (host_ok ev) (YT_URL r) = Inr (url1 res)"
    and "url1 res \<noteq> Some []"
    and "if \<not> isna (YT_URL_1 r) \<and> \<not> falsy (YT_URL_1 r)
         then clean_youtube_url (host_ok ev) (YT_URL_1 r) = Inr (url2 res)
         else url2 res = None"
    and "url2 res \<noteq> Some []"
proof -
  note f = song_wish_fields [OF assms]
  from validate_song_url [OF f(1)]
  show "clean_youtube_url (host_ok ev) (YT_URL r) = Inr (url1 res)" and "url1 res \<noteq> Some []"
    by simp_all
  show "if \<not> isna (YT_URL_1 r) \<and> \<not> falsy (YT_URL_1 r)
         then clean_youtube_url (host_ok ev) (YT_URL_1 r) = Inr (url2 res)
         else url2 res = None"
    using f(2) validate_song_url by (auto split: if_splits)
  show "url2 res \<noteq> Some []"
    using f(2) validate_song_url by (auto split: if_splits)
qed

lemma results_urls:
  assumes "song_wishes ev b f 0 rows = Inr results" and "res \<in> set results"
  shows "url1 res \<noteq> Some [] \<and> url2 res \<noteq> Some []"
proof -
  from assms(2) obtain i where i: "i < length results" and res: "res = results ! i"
    by (auto simp: in_set_conv_nth)
  from song_wishes_nth [OF assms(1)] i
  have "song_wish ev b f (0 + i) (rows ! i) = Inr (results ! i)" by simp
  from song_wish_urls(2,4) [OF this] res show ?thesis by simp
qed

lemma filter_has_url:
  assumes "song_wishes ev b f 0 rows = Inr results"
  shows "filter (has_url first_song) results = with_first_song results"
    and "filter (has_url second_song) results = with_second_song results"
proof -
  have "has_url first_song res \<longleftrightarrow> url1 res \<noteq> None" if "res \<in> set results" for res
    using results_urls [OF assms that]
    by (auto simp: has_url_def first_song_def split: option.splits)
  then show "filter (has_url first_song) results = with_first_song results"
    unfolding with_first_song_def by (intro filter_cong) simp_all
  have "has_url second_song res \<longleftrightarrow> url2 res \<noteq> None" if "res \<in> set results" for res
    using results_urls [OF assms that]
    by (auto simp: has_url_def second_song_def split: option.splits)
  then show "filter (has_url second_song) results = with_second_song results"
    unfolding with_second_song_def by (intro filter_cong) simp_all
qed

text \<open>
  When a run returns a workbook, the Songlist sheet holds one data row for every song
  request with a canonical URL, whatever its verdict: first the first songs, then the
  second songs, each group in input order, in rows 2, 3, \<dots> without gaps. A row shows the
  URL, artist, title and requester of its song, the running number counted from 1 over
  the whole table, and the joined reasons; a row with reasons has the error fill. The
  canonical URLs of a result are those of its input row, and a second song has one
  exactly when its URL cell is filled.
\<close>

lemma songlist_rows:
  assumes "submissions df = Inr rows"
    and "song_wishes ev blocked_songs form_url 0 rows = Inr results"
    and "process_songwishes ev blocked_songs form_url df = Inr wb"
  shows "data_rows (Songlist wb)
           = {2..<2 + length (with_first_song results) + length (with_second_song results)}
       \<and> (\<forall>k<length (with_first_song results).
            cells (Songlist wb) (2 + k, 1) = map_option XStr (url1 (with_first_song results ! k))
          \<and> cells (Songlist wb) (2 + k, 2) = Some (XCell (artist1 (with_first_song results ! k)))
          \<and> cells (Songlist wb) (2 + k, 3) = Some (XCell (title1 (with_first_song results ! k)))
          \<and> cells (Songlist wb) (2 + k, 5) = Some (XCell (email (with_first_song results ! k)))
          \<and> cells (Songlist wb) (2 + k, 12) = Some (XInt (int k + 1))
          \<and> cells (Songlist wb) (2 + k, 14)
              = Some (XStr (join ''; '' (errors1 (with_first_song results ! k))))
          \<and> (errors1 (with_first_song results ! k) \<noteq> []
               \<longrightarrow> fills (Songlist wb) (2 + k, 1) = Some error_fill))
       \<and> (\<forall>k<length (with_second_song results).
            cells (Songlist wb) (2 + length (with_first_song results) + k, 1)
              = map_option XStr (url2 (with_second_song results ! k))
          \<and> cells (Songlist wb) (2 + length (with_first_song results) + k, 2)
              = Some (XCell (artist2 (with_second_song results ! k)))
          \<and> cells (Songlist wb) (2 + length (with_first_song results) + k, 3)
              = Some (XCell (title2 (with_second_song results ! k)))
          \<and> cells (Songlist wb) (2 + length (with_first_song results) + k, 5)
              = Some (XCell (email (with_second_song results ! k)))
          \<and> cells (Songlist wb) (2 + length (with_first_song results) + k, 12)
              = Some (XInt (int (length (with_first_song results)) + int k + 1))
          \<and> cells (Songlist wb) (2 + length (with_first_song results) + k, 14)
              = Some (XStr (join ''; '' (errors2 (with_second_song results ! k))))
          \<and> (errors2 (with_second_song results ! k) \<noteq> []
               \<longrightarrow> fills (Songlist wb) (2 + length (with_first_song results) + k, 1)
                     = Some error_fill))
       \<and> length results = length rows
       \<and> (\<forall>i<length rows.
            clean_youtube_url (host_ok ev) (YT_URL (rows ! i)) = Inr (url1 (results ! i))
          \<and> artist1 (results ! i) = Kuenstler (rows ! i)
          \<and> title1 (results ! i) = Songname (rows ! i)
          \<and> (if \<not> isna (YT_URL_1 (rows ! i)) \<and> \<not> falsy (YT_URL_1 (rows ! i))
              then clean_youtube_url (host_ok ev) (YT_URL_1 (rows ! i)) = Inr (url2 (results ! i))
              else url2 (results ! i) = None)
          \<and> artist2 (results ! i) = Kuenstler_1 (rows ! i)
          \<and> title2 (results ! i) = Songname_1 (rows ! i))"
proof -
  let ?P = "with_first_song results" and ?S = "with_second_song results"
  let ?H = "write_headers empty_sheet songlist_headers"
  from assms(3) obtain rows' results' ws1 rn sc rn2 sc2 where
    rows': "submissions df = Inr rows'" and
    results': "song_wishes ev blocked_songs form_url 0 rows' = Inr results'" and
    loop1': "song_rows first_song results' (?H, 2, 1) = Inr (ws1, rn, sc)" and
    loop2': "song_rows second_song results' (ws1, rn, sc) = Inr (Songlist wb, rn2, sc2)"
    by (rule process_songwishes_Inr)
  from rows' assms(1) have "rows' = rows" by simp
  with results' assms(2) have "results' = results" by simp
  with loop1' loop2' have
    loop1: "song_rows first_song results (?H, 2, 1) = Inr (ws1, rn, sc)" and
    loop2: "song_rows second_song results (ws1, rn, sc) = Inr (Songlist wb, rn2, sc2)"
    by simp_all
  note fP = filter_has_url(1) [OF assms(2)] and fS = filter_has_url(2) [OF assms(2)]
  from song_rows_result [OF loop1] have
    rn: "rn = 2 + length ?P" and sc: "sc = 1 + length ?P" and
    c1: "\<And>r c. cells ws1 (r, c) =
         (if 2 \<le> r \<and> r < rn \<and> 1 \<le> c \<and> c \<le> 14
          then Some (song_values_of first_song (?P ! (r - 2)) (1 + (r - 2)) ! (c - 1))
          else cells ?H (r, c))" and
    f1: "\<And>r c. fills ws1 (r, c) =
         (if 2 \<le> r \<and> r < rn \<and> 1 \<le> c \<and> c \<le> 14
             \<and> song_errors first_song (?P ! (r - 2)) \<noteq> []
          then Some error_fill else fills ?H (r, c))"
    unfolding fP by simp_all
  from song_rows_result [OF loop2] have
    rn2: "rn2 = rn + length ?S" and
    c2: "\<And>r c. cells (Songlist wb) (r, c) =
         (if rn \<le> r \<and> r < rn2 \<and> 1 \<le> c \<and> c \<le> 14
          then Some (song_values_of second_song (?S ! (r - rn)) (sc + (r - rn)) ! (c - 1))
          else cells ws1 (r, c))" and
    f2: "\<And>r c. fills (Songlist wb) (r, c) =
         (if rn \<le> r \<and> r < rn2 \<and> 1 \<le> c \<and> c \<le> 14
             \<and> song_errors second_song (?S ! (r - rn)) \<noteq> []
          then Some error_fill else fills ws1 (r, c))"
    unfolding fS by simp_all
  have rows_eq: "data_rows (Songlist wb) = {2..<2 + length ?P + length ?S}"
  proof (rule set_eqI)
    fix r
    show "r \<in> data_rows (Songlist wb) \<longleftrightarrow> r \<in> {2..<2 + length ?P + length ?S}"
    proof (cases "2 \<le> r \<and> r < rn2")
      case True
      then have "cells (Songlist wb) (r, 1) \<noteq> None"
        by (simp add: c2 c1)
      then have "\<exists>c. cells (Songlist wb) (r, c) \<noteq> None" by blast
      with True show ?thesis by (simp add: data_rows_def rn2 rn)
    next
      case False
      then have "cells (Songlist wb) (r, c) = None" if "2 \<le> r" for c
        using that by (auto simp: c2 c1 cells_write_headers rn2 rn)
      with False show ?thesis by (auto simp: data_rows_def rn2 rn)
    qed
  qed
  have first: "cells (Songlist wb) (2 + k, 1) = map_option XStr (url1 (?P ! k))
          \<and> cells (Songlist wb) (2 + k, 2) = Some (XCell (artist1 (?P ! k)))
          \<and> cells (Songlist wb) (2 + k, 3) = Some (XCell (title1 (?P ! k)))
          \<and> cells (Songlist wb) (2 + k, 5) = Some (XCell (email (?P ! k)))
          \<and> cells (Songlist wb) (2 + k, 12) = Some (XInt (int k + 1))
          \<and> cells (Songlist wb) (2 + k, 14) = Some (XStr (join ''; '' (errors1 (?P ! k))))
          \<and> (errors1 (?P ! k) \<noteq> [] \<longrightarrow> fills (Songlist wb) (2 + k, 1) = Some error_fill)"
    if k: "k < length ?P" for k
  proof -
    from k have "?P ! k \<in> set (filter (has_url first_song) results)"
      unfolding fP by simp
    from song_rows_parsed [OF loop1 this]
    have "length (song_values_of first_song (?P ! k) (1 + k)) = 14" .
    from song_values_of_first [OF this] obtain u a b where
      u: "url1 (?P ! k) = Some u" and
      vs: "song_values_of first_song (?P ! k) (1 + k)
           = song_values u (artist1 (?P ! k)) (title1 (?P ! k)) (email (?P ! k)) a b (1 + k)
               (note1 (?P ! k)) (errors1 (?P ! k))"
      by blast
    have c: "cells (Songlist wb) (2 + k, c)
             = Some (song_values_of first_song (?P ! k) (1 + k) ! (c - 1))"
      if "1 \<le> c" "c \<le> 14" for c
      using that k by (simp add: c2 c1 rn)
    have e: "song_errors first_song (?P ! k) = errors1 (?P ! k)"
      by (simp add: song_errors_def first_song_def)
    have f: "errors1 (?P ! k) \<noteq> [] \<Longrightarrow> fills (Songlist wb) (2 + k, 1) = Some error_fill"
      using k by (simp add: f2 f1 rn e)
    have cols:
      "song_values_of first_song (?P ! k) (1 + k) ! 0 = XStr u"
      "song_values_of first_song (?P ! k) (1 + k) ! 1 = XCell (artist1 (?P ! k))"
      "song_values_of first_song (?P ! k) (1 + k) ! 2 = XCell (title1 (?P ! k))"
      "song_values_of first_song (?P ! k) (1 + k) ! 4 = XCell (email (?P ! k))"
      "song_values_of first_song (?P ! k) (1 + k) ! 11 = XInt (int k + 1)"
      "song_values_of first_song (?P ! k) (1 + k) ! 13 = XStr (join ''; '' (errors1 (?P ! k)))"
      unfolding vs by (simp_all add: song_values_def)
    show ?thesis
      using c [of 1] c [of 2] c [of 3] c [of 5] c [of 12] c [of 14] f cols
      by (simp add: u)
  qed
  have second: "cells (Songlist wb) (2 + length ?P + k, 1) = map_option XStr (url2 (?S ! k))
          \<and> cells (Songlist wb) (2 + length ?P + k, 2) = Some (XCell (artist2 (?S ! k)))
          \<and> cells (Songlist wb) (2 + length ?P + k, 3) = Some (XCell (title2 (?S ! k)))
          \<and> cells (Songlist wb) (2 + length ?P + k, 5) = Some (XCell (email (?S ! k)))
          \<and> cells (Songlist wb) (2 + length ?P + k, 12)
              = Some (XInt (int (length ?P) + int k + 1))
          \<and> cells (Songlist wb) (2 + length ?P + k, 14)
              = Some (XStr (join ''; '' (errors2 (?S ! k))))
          \<and> (errors2 (?S ! k) \<noteq> []
               \<longrightarrow> fills (Songlist wb) (2 + length ?P + k, 1) = Some error_fill)"
    if k: "k < length ?S" for k
  proof -
    from k have "?S ! k \<in> set (filter (has_url second_song) results)"
      unfolding fS by simp
    from song_rows_parsed [OF loop2 this]
    have "length (song_values_of second_song (?S ! k) (sc + k)) = 14" .
    from song_values_of_second [OF this] obtain u a b where
      u: "url2 (?S ! k) = Some u" and
      vs: "song_values_of second_song (?S ! k) (sc + k)
           = song_values u (artist2 (?S ! k)) (title2 (?S ! k)) (email (?S ! k)) a b (sc + k)
               (note2 (?S ! k)) (errors2 (?S ! k))"
      by blast
    have c: "cells (Songlist wb) (2 + length ?P + k, c)
             = Some (song_values_of second_song (?S ! k) (sc + k) ! (c - 1))"
      if "1 \<le> c" "c \<le> 14" for c
      using that k by (simp add: c2 rn rn2)
    have e: "song_errors second_song (?S ! k) = errors2 (?S ! k)"
      by (simp add: song_errors_def second_song_def)
    have f: "errors2 (?S ! k) \<noteq> []
             \<Longrightarrow> fills (Songlist wb) (2 + length ?P + k, 1) = Some error_fill"
      using k by (simp add: f2 rn rn2 e)
    have cols:
      "song_values_of second_song (?S ! k) (sc + k) ! 0 = XStr u"
      "song_values_of second_song (?S ! k) (sc + k) ! 1 = XCell (artist2 (?S ! k))"
      "song_values_of second_song (?S ! k) (sc + k) ! 2 = XCell (title2 (?S ! k))"
      "song_values_of second_song (?S ! k) (sc + k) ! 4 = XCell (email (?S ! k))"
      "song_values_of second_song (?S ! k) (sc + k) ! 11
         = XInt (int (length ?P) + int k + 1)"
      "song_values_of second_song (?S ! k) (sc + k) ! 13
         = XStr (join ''; '' (errors2 (?S ! k)))"
      unfolding vs by (simp_all add: song_values_def sc)
    show ?thesis
      using c [of 1] c [of 2] c [of 3] c [of 5] c [of 12] c [of 14] f cols
      by (simp add: u)
  qed
  from song_wishes_nth [OF assms(2)] have len: "length results = length rows"
    and nth: "\<And>i. i < length rows
                \<Longrightarrow> song_wish ev blocked_songs form_url i (rows ! i) = Inr (results ! i)"
    by simp_all
  have link: "clean_youtube_url (host_ok ev) (YT_URL (rows ! i)) = Inr (url1 (results ! i))
          \<and> artist1 (results ! i) = Kuenstler (rows ! i)
          \<and> title1 (results ! i) = Songname (rows ! i)
          \<and> (if \<not> isna (YT_URL_1 (rows ! i)) \<and> \<not> falsy (YT_URL_1 (rows ! i))
              then clean_youtube_url (host_ok ev) (YT_URL_1 (rows ! i)) = Inr (url2 (results ! i))
              else url2 (results ! i) = None)
          \<and> artist2 (results ! i) = Kuenstler_1 (rows ! i)
          \<and> title2 (results ! i) = Songname_1 (rows ! i)"
    if "i < length rows" for i
    using song_wish_urls(1,3) [OF nth [OF that]] song_wish_fields(3,4,8,9) [OF nth [OF that]]
    by simp
  from rows_eq first second len link show ?thesis by blast
qed

lemma songlist_rows_witness:
  "submissions example_df = Inr example_df
   \<and> (case process_songwishes example_env {} ''https://forms.gle/x'' example_df of
        Inl e \<Rightarrow> False
      | Inr wb \<Rightarrow> data_rows (Songlist wb) = {2..<4}
                 \<and> cells (Songlist wb) (2, 1) = Some (XStr ''https://www.youtube.com/watch?v=abc'')
                 \<and> cells (Songlist wb) (2, 12) = Some (XInt 1)
                 \<and> cells (Songlist wb) (3, 1) = Some (XStr ''https://youtu.be/x'')
                 \<and> cells (Songlist wb) (3, 12) = Some (XInt 2))"
proof -
  from example_run obtain wb where
    wb: "process_songwishes example_env {} ''https://forms.gle/x'' example_df = Inr wb" ..
  from wb obtain rows' results where
    "submissions example_df = Inr rows'" and
    "song_wishes example_env {} ''https://forms.gle/x'' 0 rows' = Inr results"
    by (rule process_songwishes_Inr)
  with example_submissions have
    sw: "song_wishes example_env {} ''https://forms.gle/x'' 0 example_df = Inr results"
    by simp
  note T = songlist_rows [OF example_submissions sw wb]
  note rows = T [THEN conjunct1]
  note firsts = T [THEN conjunct2, THEN conjunct1, rule_format]
  note seconds = T [THEN conjunct2, THEN conjunct2, THEN conjunct1, rule_format]
  note len = T [THEN conjunct2, THEN conjunct2, THEN conjunct2, THEN conjunct1]
  note link = T [THEN conjunct2, THEN conjunct2, THEN conjunct2, THEN conjunct2, rule_format]
  have l0: "0 < length example_df" and l1: "1 < length example_df"
    by (simp_all add: example_df_def)
  from len obtain x y where xy: "results = [x, y]"
    by (cases results; cases "tl results") (auto simp: example_df_def)
  have e0: "example_df ! 0 = example_row" and e1: "example_df ! 1 = no_url_row"
    by (simp_all add: example_df_def)
  from link [OF l0] have "url1 x = Some ''https://www.youtube.com/watch?v=abc''"
    and "url2 x = Some ''https://youtu.be/x''"
    unfolding e0
    by (simp_all add: xy example_row_def example_env_def clean_watch_url clean_example_url)
  moreover from link [OF l1] have "url1 y = None" and "url2 y = None"
    unfolding e1
    by (simp_all add: xy no_url_row_def clean_youtube_url_def)
  ultimately have urls: "url1 x = Some ''https://www.youtube.com/watch?v=abc''" "url1 y = None"
    "url2 x = Some ''https://youtu.be/x''" "url2 y = None"
    by simp_all
  have P: "with_first_song results = [x]" and S: "with_second_song results = [x]"
    by (simp_all add: with_first_song_def with_second_song_def xy urls)
  from rows have d: "data_rows (Songlist wb) = {2..<4}"
    by (simp add: P S)
  have "0 < length (with_first_song results)" by (simp add: P)
  from firsts [OF this]
  have first: "cells (Songlist wb) (2, 1) = Some (XStr ''https://www.youtube.com/watch?v=abc'')"
    "cells (Songlist wb) (2, 12) = Some (XInt 1)"
    by (simp_all add: P urls)
  have "0 < length (with_second_song results)" by (simp add: S)
  from seconds [OF this]
  have second: "cells (Songlist wb) (3, 1) = Some (XStr ''https://youtu.be/x'')"
    "cells (Songlist wb) (3, 12) = Some (XInt 2)"
    by (simp_all add: P S urls numeral_3_eq_3)
  show ?thesis
    using d first second by (simp add: wb example_submissions)
qed

section \<open>Runs that raise\<close>

lemma parse_inf: "parse_timestamp (Str ''inf'') = Inl OverflowError"
  by (simp add: parse_timestamp_def num_eval)

lemma inf_row_rejected:
  "validate_song failing_env (Str ''https://youtu.be/x'') (Str ''Some'') (Str ''Song'')
     (Str ''inf'') (Str ''1:00'') {}
   = Inr ([''YouTube-Fehler: Video unavailable / YouTube error: Video unavailable''],
          Some ''https://youtu.be/x'')"
  by (simp add: validate_song_def failing_env_def failing_fetch_def clean_example_url
      get_youtube_info_def youtube_error_def)

lemma inf_row_raises:
  "validate_song example_env (Str ''https://youtu.be/x'') (Str ''Some'') (Str ''Song'')
     (Str ''inf'') (Str ''1:00'') {} = Inl OverflowError"
proof -
  have l: "check_is_lyric_video (Some (Info example_video)) = Inr Pass"
    by code_simp
  have d: "check_duration (Str ''inf'') (Str ''1:00'') = Inl OverflowError"
    by (simp add: check_duration_def parse_inf)
  show ?thesis
    by (simp add: validate_song_def example_env_def example_fetch_def clean_example_url
        get_youtube_info_def l d
        del: check_artist_title_match.simps check_is_lyric_video.simps
          check_age_restriction.simps)
qed

lemma inf_submissions: "submissions [inf_row] = Inr [inf_row]"
  by (simp add: submissions_def inf_row_def)

lemma example_inf_submissions: "submissions [example_row, inf_row] = Inr [example_row, inf_row]"
  by (simp add: submissions_def example_row_def)

text \<open>
  C2 (defect of the code): on every run that returns a workbook the Songlist is as the
  claim says (\<open>songlist_rows\<close>), but not every batch gets that far. The one submission
  below has a canonical URL and is rejected with the YouTube error; its start timestamp
  is the text \<^verbatim>\<open>inf\<close>, which \<^verbatim>\<open>validate_song\<close> never parses on a failed fetch. The
  songlist loop parses it, \<^verbatim>\<open>parse_timestamp\<close> raises OverflowError, and the run ends
  before the workbook is saved: the song is in no Songlist.
\<close>

theorem songlist_run_raises:
  "validate_song failing_env (YT_URL inf_row) (Kuenstler inf_row) (Songname inf_row)
     (Start_Timestamp inf_row) (End_Timestamp inf_row) {}
   = Inr ([''YouTube-Fehler: Video unavailable / YouTube error: Video unavailable''],
          Some ''https://youtu.be/x'')
   \<and> process_songwishes failing_env {} ''https://forms.gle/x'' [inf_row] = Inl OverflowError"
proof
  show "validate_song failing_env (YT_URL inf_row) (Kuenstler inf_row) (Songname inf_row)
     (Start_Timestamp inf_row) (End_Timestamp inf_row) {}
   = Inr ([''YouTube-Fehler: Video unavailable / YouTube error: Video unavailable''],
          Some ''https://youtu.be/x'')"
    by (simp add: inf_row_def inf_row_rejected)
next
  have w: "song_wishes failing_env {} ''https://forms.gle/x'' 0 [inf_row]
           = Inr [\<lparr>row_index = 0, email = Str ''c@example.org'', language = Str ''Deutsch'',
                    contact_pref = Str ''Instagram'', instagram = Str ''@dancer'',
                    whatsapp = Missing, other_contact = Missing,
                    url1 = Some ''https://youtu.be/x'', artist1 = Str ''Some'',
                    title1 = Str ''Song'', start1 = Str ''inf'', end1 = Str ''1:00'',
                    note1 = Missing,
                    errors1 = [''YouTube-Fehler: Video unavailable / YouTube error: Video unavailable''],
                    url2 = None, artist2 = Missing, title2 = Missing, start2 = Missing,
                    end2 = Missing, note2 = Missing, errors2 = [],
                    contact_url = create_contact_url inf_row,
                    message = create_message failing_env inf_row
                      [''YouTube-Fehler: Video unavailable / YouTube error: Video unavailable'']
                      (Str ''Deutsch'') ''https://forms.gle/x''\<rparr>]"
    by (simp add: song_wish_def inf_row_def inf_row_rejected)
  show "process_songwishes failing_env {} ''https://forms.gle/x'' [inf_row] = Inl OverflowError"
    by (simp add: process_songwishes_def inf_submissions w first_song_def parse_inf Let_def
        del: write_from.simps fill_cols.simps song_wishes.simps)
qed

text \<open>
  C9 (defects of the code): on every run that returns a workbook the Message sheet holds
  min(number of submissions, 50) data rows (\<open>message_table_rows\<close>), but not every batch
  gets that far. For the empty batch the look at the first row, \<^verbatim>\<open>df.iloc[0]\<close>, raises
  IndexError, where the claim gives 0 rows. For a batch of two submissions of which one
  has the start timestamp \<^verbatim>\<open>inf\<close>, \<^verbatim>\<open>parse_timestamp\<close> raises OverflowError inside
  \<^verbatim>\<open>validate_song\<close>, where the claim gives 2 rows.
\<close>

theorem message_run_raises:
  "process_songwishes failing_env {} ''https://forms.gle/x'' [] = Inl IndexError
   \<and> process_songwishes example_env {} ''https://forms.gle/x'' [example_row, inf_row]
       = Inl OverflowError"
proof
  show "process_songwishes failing_env {} ''https://forms.gle/x'' [] = Inl IndexError"
    by (simp add: process_songwishes_def submissions_def)
next
  have w: "song_wishes example_env {} ''https://forms.gle/x'' 0 [example_row, inf_row]
           = Inl OverflowError"
    by (simp add: song_wish_def example_row_def example_first_song example_second_song,
        simp add: inf_row_def inf_row_raises)
  show "process_songwishes example_env {} ''https://forms.gle/x'' [example_row, inf_row]
       = Inl OverflowError"
    by (simp add: process_songwishes_def example_inf_submissions w del: song_wishes.simps)
qed

end
